theory Spec2Isabelle
  imports Main "HOL-Library.Word" "HOL-Library.AList"
begin

section \<open>Values, rows and errors of the Cassandra persistence adapter\<close>

text \<open>
  The adapter of \<^verbatim>\<open>common/persistence/cassandra/cassandraPersistence.go\<close> reads rows
  as Go maps \<^verbatim>\<open>map[string]interface{}\<close> and inspects them with type assertions. A
  column value is modelled by its dynamic type; a row is an association list from column
  names to values. An assertion with the comma-ok form is a lookup into \<open>option\<close>; an
  assertion without it panics on a mismatch, which the model makes a result of its own.
\<close>

type_synonym int64 = "64 word"

text \<open>The integer enumerations of the persistence package, by their named constants; any
  other integer is kept as such.\<close>

datatype WorkflowState =
    WorkflowStateCreated
  | WorkflowStateRunning
  | WorkflowStateCompleted
  | WorkflowStateZombie
  | WorkflowStateOther int

datatype WorkflowCloseStatus =
    WorkflowCloseStatusNone
  | WorkflowCloseStatusOther int

datatype CreateWorkflowMode =
    CreateWorkflowModeBrandNew
  | CreateWorkflowModeWorkflowIDReuse
  | CreateWorkflowModeContinueAsNew
  | CreateWorkflowModeZombie
  | CreateWorkflowModeOther int

datatype cval =
    CInt int
  | CBigint int64
  | CUUID string
  | CText string
  | CBool bool
  | CState WorkflowState
  | CClose WorkflowCloseStatus
  | CUDT "(string \<times> cval) list"
  | CNull

type_synonym row = "(string \<times> cval) list"

datatype 'a go = Panics | Returns 'a

text \<open>\<^verbatim>\<open>v, ok := m[k].(int)\<close>, \<^verbatim>\<open>.(int64)\<close>, \<^verbatim>\<open>.(gocql.UUID)\<close> and
  \<^verbatim>\<open>.(map[string]interface{})\<close>: \<open>None\<close> when the key is absent or holds another type.\<close>

definition as_int :: "row \<Rightarrow> string \<Rightarrow> int option" where
  "as_int m k = (case map_of m k of Some (CInt i) \<Rightarrow> Some i | _ \<Rightarrow> None)"

definition as_int64 :: "row \<Rightarrow> string \<Rightarrow> int64 option" where
  "as_int64 m k = (case map_of m k of Some (CBigint i) \<Rightarrow> Some i | _ \<Rightarrow> None)"

definition as_uuid :: "row \<Rightarrow> string \<Rightarrow> string option" where
  "as_uuid m k = (case map_of m k of Some (CUUID u) \<Rightarrow> Some u | _ \<Rightarrow> None)"

definition as_map :: "row \<Rightarrow> string \<Rightarrow> row option" where
  "as_map m k = (case map_of m k of Some (CUDT u) \<Rightarrow> Some u | _ \<Rightarrow> None)"

subsection \<open>Reserved identifiers and row types\<close>

definition emptyDomainID :: string where
  "emptyDomainID = ''10000000-0000-f000-f000-000000000000''"

definition emptyRunID :: string where
  "emptyRunID = ''30000000-0000-f000-f000-000000000000''"

definition permanentRunID :: string where
  "permanentRunID = ''30000000-0000-f000-f000-000000000001''"

definition rowTypeShardDomainID :: string where
  "rowTypeShardDomainID = ''10000000-1000-f000-f000-000000000000''"

definition rowTypeShardWorkflowID :: string where
  "rowTypeShardWorkflowID = ''20000000-1000-f000-f000-000000000000''"

definition rowTypeShardRunID :: string where
  "rowTypeShardRunID = ''30000000-1000-f000-f000-000000000000''"

definition rowTypeExecutionTaskID :: int64 where
  "rowTypeExecutionTaskID = - 10"

definition rowTypeShardTaskID :: int64 where
  "rowTypeShardTaskID = - 11"

definition emptyInitiatedID :: int64 where
  "emptyInitiatedID = - 7"

definition rowTypeShard :: int where "rowTypeShard = 0"
definition rowTypeExecution :: int where "rowTypeExecution = 1"
definition rowTypeTransferTask :: int where "rowTypeTransferTask = 2"
definition rowTypeTimerTask :: int where "rowTypeTimerTask = 3"
definition rowTypeReplicationTask :: int where "rowTypeReplicationTask = 4"

definition rowTypeTask :: int where "rowTypeTask = 0"
definition rowTypeTaskList :: int where "rowTypeTaskList = 1"

definition taskListTaskID :: int64 where
  "taskListTaskID = - 12345"

definition initialRangeID :: int64 where
  "initialRangeID = 1"

subsection \<open>Errors\<close>

text \<open>
  Every error of the source carries a message built by \<^verbatim>\<open>fmt.Sprintf\<close>. The model
  keeps what the message is built from: the values interpolated, in order, and the rows
  whose columns are dumped into it.
\<close>

type_synonym msg = "cval list \<times> row list"

datatype error =
    ShardOwnershipLostError int msg
  | CurrentWorkflowConditionFailedError msg
  | ConditionFailedError msg
  | WorkflowExecutionAlreadyStartedError msg row "row option"
  | ShardAlreadyExistError msg
  | TimeoutError
  | ServiceBusyError
  | InternalServiceError
  | EntityNotExistsError

datatype error_kind =
    ShardOwnershipLost
  | CurrentWorkflowConditionFailed
  | ConditionFailed
  | WorkflowExecutionAlreadyStarted
  | ShardAlreadyExists
  | AmbiguousOutcome
  | Busy
  | Internal
  | EntityNotFound

fun kindOf :: "error \<Rightarrow> error_kind" where
  "kindOf (ShardOwnershipLostError _ _) = ShardOwnershipLost"
| "kindOf (CurrentWorkflowConditionFailedError _) = CurrentWorkflowConditionFailed"
| "kindOf (ConditionFailedError _) = ConditionFailed"
| "kindOf (WorkflowExecutionAlreadyStartedError _ _ _) = WorkflowExecutionAlreadyStarted"
| "kindOf (ShardAlreadyExistError _) = ShardAlreadyExists"
| "kindOf TimeoutError = AmbiguousOutcome"
| "kindOf ServiceBusyError = Busy"
| "kindOf InternalServiceError = Internal"
| "kindOf EntityNotExistsError = EntityNotFound"

section \<open>The conditional-failure classifier of the update and reset paths\<close>

text \<open>
  \<^verbatim>\<open>getExecutionConditionalUpdateFailure\<close>. The first row is \<open>previous\<close>, the rows
  still to come are the iterator; \<^verbatim>\<open>iter.MapScan\<close> answers false once it is exhausted.
  The loop keeps three flags and the last values seen, and the rows it has scanned.
\<close>

record scan =
  rangeIDUnmatch :: bool
  actualRangeID :: int64
  nextEventIDUnmatch :: bool
  actualNextEventID :: int64
  runIDUnmatch :: bool
  actualCurrRunID :: string
  allPrevious :: "row list"

definition scan0 :: scan where
  "scan0 = \<lparr>rangeIDUnmatch = False, actualRangeID = 0, nextEventIDUnmatch = False,
            actualNextEventID = 0, runIDUnmatch = False, actualCurrRunID = [],
            allPrevious = []\<rparr>"

text \<open>One pass of the loop body below the two reads of \<open>type\<close> and \<open>run_id\<close>.\<close>

definition inspectRow ::
  "row \<Rightarrow> int \<Rightarrow> string \<Rightarrow> string \<Rightarrow> int64 \<Rightarrow> int64 \<Rightarrow> string \<Rightarrow> scan \<Rightarrow> scan go" where
  "inspectRow previous rowType runID requestRunID requestCondition requestRangeID
     requestConditionalRunID s =
   (if rowType = rowTypeShard then
      (case as_int64 previous ''range_id'' of
         Some v \<Rightarrow> Returns (s\<lparr>actualRangeID := v,
                     rangeIDUnmatch := (rangeIDUnmatch s \<or> v \<noteq> requestRangeID)\<rparr>)
       | None \<Rightarrow> Returns (s\<lparr>actualRangeID := 0\<rparr>))
    else if rowType = rowTypeExecution \<and> runID = requestRunID then
      (case as_int64 previous ''next_event_id'' of
         Some v \<Rightarrow> Returns (s\<lparr>actualNextEventID := v,
                     nextEventIDUnmatch := (nextEventIDUnmatch s \<or> v \<noteq> requestCondition)\<rparr>)
       | None \<Rightarrow> Returns (s\<lparr>actualNextEventID := 0\<rparr>))
    else if rowType = rowTypeExecution \<and> runID = permanentRunID then
      (case as_uuid previous ''current_run_id'' of
         Some u \<Rightarrow> Returns (s\<lparr>actualCurrRunID := u,
                     runIDUnmatch := (runIDUnmatch s \<or> u \<noteq> requestConditionalRunID)\<rparr>)
       | None \<Rightarrow> Panics)
    else Returns s)"

fun GetFailureReasonLoop ::
  "row \<Rightarrow> row list \<Rightarrow> string \<Rightarrow> int64 \<Rightarrow> int64 \<Rightarrow> string \<Rightarrow> scan \<Rightarrow> scan go" where
  "GetFailureReasonLoop previous iter requestRunID requestCondition requestRangeID
     requestConditionalRunID s =
   (case as_int previous ''type'' of
      None \<Rightarrow> Returns s
    | Some rowType \<Rightarrow>
       (case as_uuid previous ''run_id'' of
          None \<Rightarrow> Panics
        | Some runID \<Rightarrow>
           (case inspectRow previous rowType runID requestRunID requestCondition
                   requestRangeID requestConditionalRunID s of
              Panics \<Rightarrow> Panics
            | Returns s' \<Rightarrow>
               (case iter of
                  [] \<Rightarrow> Returns (s'\<lparr>allPrevious := allPrevious s' @ [previous]\<rparr>)
                | nxt # rest \<Rightarrow>
                    GetFailureReasonLoop nxt rest requestRunID requestCondition
                      requestRangeID requestConditionalRunID
                      (s'\<lparr>allPrevious := allPrevious s' @ [previous]\<rparr>)))))"

definition failureOf :: "int \<Rightarrow> int64 \<Rightarrow> int64 \<Rightarrow> string \<Rightarrow> scan \<Rightarrow> error" where
  "failureOf shardID requestCondition requestRangeID requestConditionalRunID s =
   (if rangeIDUnmatch s then
      ShardOwnershipLostError shardID
        ([CBigint requestRangeID, CBigint (actualRangeID s)], [])
    else if runIDUnmatch s then
      CurrentWorkflowConditionFailedError
        ([CBigint requestCondition, CBigint (actualNextEventID s),
          CText requestConditionalRunID, CText (actualCurrRunID s)], [])
    else if nextEventIDUnmatch s then
      ConditionFailedError
        ([CBigint requestCondition, CBigint (actualNextEventID s),
          CText requestConditionalRunID, CText (actualCurrRunID s)], [])
    else
      ConditionFailedError
        ([CInt shardID, CBigint requestRangeID, CBigint requestCondition,
          CText requestConditionalRunID], allPrevious s))"

definition getExecutionConditionalUpdateFailure ::
  "int \<Rightarrow> row \<Rightarrow> row list \<Rightarrow> string \<Rightarrow> int64 \<Rightarrow> int64 \<Rightarrow> string \<Rightarrow> error go" where
  "getExecutionConditionalUpdateFailure shardID previous iter requestRunID requestCondition
     requestRangeID requestConditionalRunID =
   (case GetFailureReasonLoop previous iter requestRunID requestCondition requestRangeID
           requestConditionalRunID scan0 of
      Panics \<Rightarrow> Panics
    | Returns s \<Rightarrow>
        Returns (failureOf shardID requestCondition requestRangeID requestConditionalRunID s))"


section \<open>The create request and the classifier of the create path\<close>

text \<open>The thrift struct \<^verbatim>\<open>WorkflowExecution\<close> has pointer fields: the getters answer the
  empty string on nil, a dereference panics.\<close>

record WorkflowExecution =
  WorkflowId :: "string option"
  RunId :: "string option"

definition GetWorkflowId :: "WorkflowExecution \<Rightarrow> string" where
  "GetWorkflowId e = (case WorkflowId e of None \<Rightarrow> [] | Some w \<Rightarrow> w)"

definition GetRunId :: "WorkflowExecution \<Rightarrow> string" where
  "GetRunId e = (case RunId e of None \<Rightarrow> [] | Some r \<Rightarrow> r)"

record ReplicationState =
  CurrentVersion :: int64
  StartVersion :: int64
  LastWriteVersion :: int64
  LastWriteEventID :: int64
  LastReplicationInfo :: cval

text \<open>
  \<^verbatim>\<open>p.InternalCreateWorkflowExecutionRequest\<close>. The fields that are only marshalled
  into the \<open>execution\<close> column (task list, timeouts, retry policy, and so on) are kept
  together in \<open>Marshalled\<close>; the task lists are kept as the values handed to the task
  helpers.
\<close>

record InternalCreateWorkflowExecutionRequest =
  RequestID :: string
  DomainID :: string
  Execution :: WorkflowExecution
  ParentDomainID :: string
  ParentExecution :: WorkflowExecution
  InitiatedID :: int64
  State :: WorkflowState
  CloseStatus :: WorkflowCloseStatus
  NextEventID :: int64
  Marshalled :: row
  ReplicationState :: "ReplicationState option"
  VersionHistories :: "(cval \<times> cval) option"
  TransferTasks :: "cval list"
  ReplicationTasks :: "cval list"
  TimerTasks :: "cval list"
  RangeID :: int64
  CreateWorkflowMode :: CreateWorkflowMode
  PreviousRunID :: string
  PreviousLastWriteVersion :: int64

text \<open>
  The loop \<^verbatim>\<open>GetFailureReasonLoop\<close> inside \<^verbatim>\<open>CreateWorkflowExecution\<close>: it returns at
  the first row that decides, and falls back to \<^verbatim>\<open>ShardOwnershipLostError\<close> when none
  does. The already-started error is built from the \<open>execution\<close> column, and from the
  \<open>replication_state\<close> column when the request has a replication state.
\<close>

definition createInspectRow ::
  "int \<Rightarrow> InternalCreateWorkflowExecutionRequest \<Rightarrow> row \<Rightarrow> int \<Rightarrow> string \<Rightarrow> error go option" where
  \<comment> \<open>The body of the loop for one row: \<open>Some\<close> is a return (or a panic), \<open>None\<close> goes
      on to the next row.\<close>
  "createInspectRow shardID request previous rowType runID =
   (if rowType = rowTypeShard then
      (case as_int64 previous ''range_id'' of
         Some rangeID \<Rightarrow>
           (if rangeID \<noteq> RangeID request then
              Some (Returns (ShardOwnershipLostError shardID
                      ([CBigint (RangeID request), CBigint rangeID], [])))
            else None)
       | None \<Rightarrow> None)
    else if rowType = rowTypeExecution \<and> runID = permanentRunID then
      (case as_map previous ''execution'' of
         Some execution \<Rightarrow>
           (case ReplicationState request of
              None \<Rightarrow>
                Some (Returns (WorkflowExecutionAlreadyStartedError
                  ([CText (GetWorkflowId (Execution request)), CBigint (RangeID request)],
                   [previous]) execution None))
            | Some _ \<Rightarrow>
               (case as_map previous ''replication_state'' of
                  None \<Rightarrow> Some Panics
                | Some replicationState \<Rightarrow>
                    Some (Returns (WorkflowExecutionAlreadyStartedError
                      ([CText (GetWorkflowId (Execution request)), CBigint (RangeID request)],
                       [previous]) execution (Some replicationState)))))
       | None \<Rightarrow>
          (case as_uuid previous ''current_run_id'' of
             None \<Rightarrow> Some Panics
           | Some prevRunID \<Rightarrow>
              (if prevRunID \<noteq> GetRunId (Execution request) then
                 Some (Returns (CurrentWorkflowConditionFailedError
                   ([CText (GetWorkflowId (Execution request)),
                     CText (GetRunId (Execution request))], [previous])))
               else
                 Some (Returns (ConditionFailedError
                   ([CText (GetWorkflowId (Execution request)),
                     CText (GetRunId (Execution request))], [previous]))))))
    else None)"

fun createFailureReason ::
  "int \<Rightarrow> InternalCreateWorkflowExecutionRequest \<Rightarrow> row \<Rightarrow> row list \<Rightarrow> error go" where
  "createFailureReason shardID request previous iter =
   (case as_int previous ''type'' of
      None \<Rightarrow> Returns (ShardOwnershipLostError shardID ([CBigint (RangeID request)], [previous]))
    | Some rowType \<Rightarrow>
       (case as_uuid previous ''run_id'' of
          None \<Rightarrow> Panics
        | Some runID \<Rightarrow>
           (case createInspectRow shardID request previous rowType runID of
              Some decided \<Rightarrow> decided
            | None \<Rightarrow>
               (case iter of
                  [] \<Rightarrow> Returns (ShardOwnershipLostError shardID
                                 ([CBigint (RangeID request)], [[]]))
                | nxt # rest \<Rightarrow> createFailureReason shardID request nxt rest))))"

section \<open>The classification in the words of the specification\<close>

text \<open>
  The priority order of the specification, over the whole list of returned rows: a shard
  row with another range id, else a current-execution marker row with another current run
  id, else the target run's row with another next event id, else the catch-all.
\<close>

definition shardRowMismatch :: "int64 \<Rightarrow> row \<Rightarrow> bool" where
  "shardRowMismatch requestRangeID r =
   (as_int r ''type'' = Some rowTypeShard \<and>
    (case as_int64 r ''range_id'' of Some v \<Rightarrow> v \<noteq> requestRangeID | None \<Rightarrow> False))"

definition currentRowMismatch :: "string \<Rightarrow> row \<Rightarrow> bool" where
  "currentRowMismatch expectedRunID r =
   (as_int r ''type'' = Some rowTypeExecution \<and> as_uuid r ''run_id'' = Some permanentRunID \<and>
    (case as_uuid r ''current_run_id'' of Some u \<Rightarrow> u \<noteq> expectedRunID | None \<Rightarrow> False))"

definition targetRowMismatch :: "string \<Rightarrow> int64 \<Rightarrow> row \<Rightarrow> bool" where
  "targetRowMismatch requestRunID requestCondition r =
   (as_int r ''type'' = Some rowTypeExecution \<and> as_uuid r ''run_id'' = Some requestRunID \<and>
    (case as_int64 r ''next_event_id'' of Some v \<Rightarrow> v \<noteq> requestCondition | None \<Rightarrow> False))"

datatype verdict =
    VerdictShardOwnershipLost
  | VerdictCurrentWorkflowConditionFailed
  | VerdictConditionFailed
  | VerdictCatchAll "row list"

definition classifyByPriority :: "row list \<Rightarrow> string \<Rightarrow> int64 \<Rightarrow> int64 \<Rightarrow> string \<Rightarrow> verdict" where
  "classifyByPriority rows requestRunID requestCondition requestRangeID expectedRunID =
   (if list_ex (shardRowMismatch requestRangeID) rows then VerdictShardOwnershipLost
    else if list_ex (currentRowMismatch expectedRunID) rows
      then VerdictCurrentWorkflowConditionFailed
    else if list_ex (targetRowMismatch requestRunID requestCondition) rows
      then VerdictConditionFailed
    else VerdictCatchAll rows)"

fun verdictOf :: "error \<Rightarrow> verdict option" where
  "verdictOf (ShardOwnershipLostError _ _) = Some VerdictShardOwnershipLost"
| "verdictOf (CurrentWorkflowConditionFailedError _) = Some VerdictCurrentWorkflowConditionFailed"
| "verdictOf (ConditionFailedError (vs, [])) = Some VerdictConditionFailed"
| "verdictOf (ConditionFailedError (vs, r # rs)) = Some (VerdictCatchAll (r # rs))"
| "verdictOf _ = None"

text \<open>A returned row is well formed when it has its key columns \<open>type\<close> and \<open>run_id\<close>, and a
  marker row has its \<open>current_run_id\<close>: the assertions of the loop then succeed.\<close>

definition wellFormedRow :: "row \<Rightarrow> bool" where
  "wellFormedRow r =
   (case as_int r ''type'' of
      None \<Rightarrow> False
    | Some t \<Rightarrow>
       (case as_uuid r ''run_id'' of
          None \<Rightarrow> False
        | Some u \<Rightarrow>
            (t = rowTypeExecution \<and> u = permanentRunID \<longrightarrow> as_uuid r ''current_run_id'' \<noteq> None)))"


text \<open>What the body of the create path's loop decides on one row, reading the two key
  columns as the loop does.\<close>

definition createDecision ::
  "int \<Rightarrow> InternalCreateWorkflowExecutionRequest \<Rightarrow> row \<Rightarrow> error go option" where
  "createDecision shardID request r =
   (case as_int r ''type'' of
      None \<Rightarrow> None
    | Some rowType \<Rightarrow>
       (case as_uuid r ''run_id'' of
          None \<Rightarrow> None
        | Some runID \<Rightarrow> createInspectRow shardID request r rowType runID))"

subsection \<open>Example rows and requests\<close>

definition exampleShardRow :: "int64 \<Rightarrow> row" where
  "exampleShardRow rangeID =
   [(''type'', CInt 0), (''run_id'', CUUID rowTypeShardRunID), (''range_id'', CBigint rangeID)]"

definition exampleCurrentRow :: "string \<Rightarrow> row" where
  "exampleCurrentRow currentRunID =
   [(''type'', CInt 1), (''run_id'', CUUID permanentRunID),
    (''current_run_id'', CUUID currentRunID)]"

definition exampleCreateRequest :: InternalCreateWorkflowExecutionRequest where
  "exampleCreateRequest =
   \<lparr>RequestID = ''req-1'', DomainID = ''domain-1'',
    Execution = \<lparr>WorkflowId = Some ''wf-1'', RunId = Some ''run-2''\<rparr>,
    ParentDomainID = [], ParentExecution = \<lparr>WorkflowId = None, RunId = None\<rparr>,
    InitiatedID = 0, State = WorkflowStateRunning, CloseStatus = WorkflowCloseStatusNone,
    NextEventID = 3, Marshalled = [], ReplicationState = None, VersionHistories = None,
    TransferTasks = [], ReplicationTasks = [], TimerTasks = [], RangeID = 7,
    CreateWorkflowMode = CreateWorkflowModeContinueAsNew, PreviousRunID = ''run-1'',
    PreviousLastWriteVersion = 0\<rparr>"

section \<open>Statements, the session and the helpers declared elsewhere\<close>

text \<open>
  A CQL template with its bound arguments is kept as a structured statement: the table,
  the columns of the \<^verbatim>\<open>WHERE\<close> clause (for an \<^verbatim>\<open>INSERT\<close>, the key columns of the row),
  the columns assigned, and the \<^verbatim>\<open>IF\<close> clause. Each template constant of the source is
  a function of its positional arguments.
\<close>

datatype rel = EQ | GT | LE

datatype cond = Unconditional | IfNotExists | IfEquals row

datatype stmt =
    Select string "string list" "(string \<times> rel \<times> cval) list"
  | Insert string row row cond
  | Update string row row cond
  | Delete string "(string \<times> rel \<times> cval) list" cond

definition defaultVisibilityTimestamp :: int64 where
  \<comment> \<open>2000-01-01T00:00:00Z in the timestamp unit of the database (milliseconds)\<close>
  "defaultVisibilityTimestamp = 946684800000"

definition executionsKey ::
  "int \<Rightarrow> int \<Rightarrow> string \<Rightarrow> string \<Rightarrow> string \<Rightarrow> int64 \<Rightarrow> int64 \<Rightarrow> row" where
  \<comment> \<open>\<^verbatim>\<open>WHERE shard_id = ? and type = ? and domain_id = ? and workflow_id = ? and
      run_id = ? and visibility_ts = ? and task_id = ?\<close>\<close>
  "executionsKey shard_id type domain_id workflow_id run_id visibility_ts task_id =
   [(''shard_id'', CInt shard_id), (''type'', CInt type), (''domain_id'', CUUID domain_id),
    (''workflow_id'', CText workflow_id), (''run_id'', CUUID run_id),
    (''visibility_ts'', CBigint visibility_ts), (''task_id'', CBigint task_id)]"

definition tasksKey :: "string \<Rightarrow> string \<Rightarrow> int \<Rightarrow> int \<Rightarrow> int64 \<Rightarrow> row" where
  \<comment> \<open>\<^verbatim>\<open>WHERE domain_id = ? and task_list_name = ? and task_list_type = ? and type = ?
      and task_id = ?\<close>\<close>
  "tasksKey domain_id task_list_name task_list_type type task_id =
   [(''domain_id'', CUUID domain_id), (''task_list_name'', CText task_list_name),
    (''task_list_type'', CInt task_list_type), (''type'', CInt type),
    (''task_id'', CBigint task_id)]"

subsection \<open>Shard templates\<close>

record ShardInfo =
  si_ShardID :: int
  si_Owner :: string
  si_RangeID :: int64
  si_StolenSinceRenew :: int
  si_ReplicationAckLevel :: int64
  si_TransferAckLevel :: int64
  si_TimerAckLevel :: cval
  si_ClusterTransferAckLevel :: cval
  si_ClusterTimerAckLevel :: cval
  si_DomainNotificationVersion :: int64

definition templateShardType :: "ShardInfo \<Rightarrow> int64 \<Rightarrow> cval" where
  "templateShardType shardInfo cqlNowTimestamp =
   CUDT [(''shard_id'', CInt (si_ShardID shardInfo)),
         (''owner'', CText (si_Owner shardInfo)),
         (''range_id'', CBigint (si_RangeID shardInfo)),
         (''stolen_since_renew'', CInt (si_StolenSinceRenew shardInfo)),
         (''updated_at'', CBigint cqlNowTimestamp),
         (''replication_ack_level'', CBigint (si_ReplicationAckLevel shardInfo)),
         (''transfer_ack_level'', CBigint (si_TransferAckLevel shardInfo)),
         (''timer_ack_level'', si_TimerAckLevel shardInfo),
         (''cluster_transfer_ack_level'', si_ClusterTransferAckLevel shardInfo),
         (''cluster_timer_ack_level'', si_ClusterTimerAckLevel shardInfo),
         (''domain_notification_version'', CBigint (si_DomainNotificationVersion shardInfo))]"

definition shardKey :: "int \<Rightarrow> row" where
  "shardKey shardID =
   executionsKey shardID rowTypeShard rowTypeShardDomainID rowTypeShardWorkflowID
     rowTypeShardRunID defaultVisibilityTimestamp rowTypeShardTaskID"

definition templateCreateShardQuery :: "row \<Rightarrow> cval \<Rightarrow> int64 \<Rightarrow> stmt" where
  "templateCreateShardQuery key shard range_id =
   Insert ''executions'' key [(''shard'', shard), (''range_id'', CBigint range_id)] IfNotExists"

definition templateUpdateShardQuery :: "cval \<Rightarrow> int64 \<Rightarrow> row \<Rightarrow> int64 \<Rightarrow> stmt" where
  "templateUpdateShardQuery shard range_id key previous_range_id =
   Update ''executions'' key [(''shard'', shard), (''range_id'', CBigint range_id)]
     (IfEquals [(''range_id'', CBigint previous_range_id)])"

definition templateUpdateLeaseQuery :: "int64 \<Rightarrow> row \<Rightarrow> int64 \<Rightarrow> stmt" where
  "templateUpdateLeaseQuery range_id key expected_range_id =
   Update ''executions'' key [(''range_id'', CBigint range_id)]
     (IfEquals [(''range_id'', CBigint expected_range_id)])"

subsection \<open>The session\<close>

text \<open>
  An error of the driver is looked at by the source in three ways only: the comparison
  with \<^verbatim>\<open>gocql.ErrNotFound\<close>, and the predicates \<^verbatim>\<open>isTimeoutError\<close> and
  \<^verbatim>\<open>isThrottlingError\<close>, which are declared outside this file. An error value carries the
  three answers.
\<close>

record gocql_error =
  isErrNotFound :: bool
  isTimeoutError :: bool
  isThrottlingError :: bool

datatype cas_reply = CasError gocql_error | CasReply bool row

datatype batch_reply = BatchError gocql_error | BatchReply bool row "row list"

datatype scan_reply = ScanError gocql_error | ScanRow int64 row

datatype iter_reply = IterNil | IterRows "row list" "gocql_error option"

text \<open>The store's answers, as functions of what is sent to it: any behaviour of the store
  is one such session.\<close>

record session =
  MapScanCAS :: "stmt \<Rightarrow> cas_reply"
  MapExecuteBatchCAS :: "stmt list \<Rightarrow> batch_reply"
  Scan :: "stmt \<Rightarrow> scan_reply"
  Exec :: "stmt \<Rightarrow> gocql_error option"
  Iter :: "stmt \<Rightarrow> int \<Rightarrow> iter_reply"

text \<open>What an operation has sent, in order.\<close>

datatype event =
    Queried stmt
  | Batched "stmt list"
  | AssertedNotCurrent string string string

datatype 'a result = Panicked | Failed error | Done 'a

subsection \<open>Shard store\<close>

definition CreateShard :: "session \<Rightarrow> int64 \<Rightarrow> ShardInfo \<Rightarrow> event list \<times> unit result" where
  "CreateShard d cqlNowTimestamp shardInfo =
   (let query = templateCreateShardQuery (shardKey (si_ShardID shardInfo))
                  (templateShardType shardInfo cqlNowTimestamp) (si_RangeID shardInfo)
    in ([Queried query],
        (case MapScanCAS d query of
           CasError err \<Rightarrow>
             (if isThrottlingError err then Failed ServiceBusyError
              else Failed InternalServiceError)
         | CasReply applied previous \<Rightarrow>
             (if \<not> applied then
                (case as_map previous ''shard'' of
                   None \<Rightarrow> Panicked
                 | Some shard \<Rightarrow>
                     Failed (ShardAlreadyExistError
                       ([case map_of shard ''shard_id'' of Some v \<Rightarrow> v | None \<Rightarrow> CNull,
                         case map_of shard ''range_id'' of Some v \<Rightarrow> v | None \<Rightarrow> CNull], [])))
              else Done ()))))"

record UpdateShardRequest =
  us_ShardInfo :: ShardInfo
  us_PreviousRangeID :: int64

definition UpdateShard ::
  "session \<Rightarrow> int \<Rightarrow> int64 \<Rightarrow> UpdateShardRequest \<Rightarrow> event list \<times> unit result" where
  "UpdateShard d shardID cqlNowTimestamp request =
   (let shardInfo = us_ShardInfo request;
        query = templateUpdateShardQuery (templateShardType shardInfo cqlNowTimestamp)
                  (si_RangeID shardInfo) (shardKey (si_ShardID shardInfo))
                  (us_PreviousRangeID request)
    in ([Queried query],
        (case MapScanCAS d query of
           CasError err \<Rightarrow>
             (if isThrottlingError err then Failed ServiceBusyError
              else Failed InternalServiceError)
         | CasReply applied previous \<Rightarrow>
             (if \<not> applied then
                Failed (ShardOwnershipLostError shardID
                  ([CBigint (us_PreviousRangeID request)], [previous]))
              else Done ()))))"

section \<open>The lightweight transactions of the store\<close>

text \<open>
  The contract the adapter relies on (section 6 of the specification): a conditional
  write is applied or not, and a rejected one hands back the row that blocked it. A table
  maps the key columns of a row to its other columns. \<^verbatim>\<open>INSERT ... IF NOT EXISTS\<close> is
  applied exactly when the key is free and hands back the whole existing row otherwise;
  \<^verbatim>\<open>UPDATE ... IF c = v\<close> is applied exactly when the row exists and holds those values,
  and hands back the columns of the condition otherwise.
\<close>

type_synonym table = "row \<Rightarrow> row option"

fun overwrite :: "row \<Rightarrow> row \<Rightarrow> row" where
  "overwrite [] r = r"
| "overwrite ((c, v) # cs) r = overwrite cs (AList.update c v r)"

definition holds :: "row \<Rightarrow> row \<Rightarrow> bool" where
  "holds r conds = list_all (\<lambda>(c, v). map_of r c = Some v) conds"

fun lwt :: "stmt \<Rightarrow> table \<Rightarrow> cas_reply \<times> table" where
  "lwt (Insert tbl key cols IfNotExists) t =
     (case t key of
        None \<Rightarrow> (CasReply True [], t(key \<mapsto> cols))
      | Some r \<Rightarrow> (CasReply False (key @ r), t))"
| "lwt (Update tbl key cols (IfEquals conds)) t =
     (case t key of
        None \<Rightarrow> (CasReply False [], t)
      | Some r \<Rightarrow>
          (if holds r conds then (CasReply True [], t(key \<mapsto> overwrite cols r))
           else (CasReply False (filter (\<lambda>(c, v). c \<in> set (map fst conds)) r), t)))"
| "lwt _ t = (CasReply True [], t)"

text \<open>A session that answers every conditional single-row write as the table does.\<close>

definition tableSession :: "table \<Rightarrow> session" where
  "tableSession t =
   \<lparr>MapScanCAS = (\<lambda>q. fst (lwt q t)),
    MapExecuteBatchCAS = (\<lambda>b. BatchReply True [] []),
    Scan = (\<lambda>q. ScanError \<lparr>isErrNotFound = True, isTimeoutError = False,
                            isThrottlingError = False\<rparr>),
    Exec = (\<lambda>q. None),
    Iter = (\<lambda>q n. IterRows [] None)\<rparr>"

definition exampleShardInfo :: "string \<Rightarrow> int64 \<Rightarrow> ShardInfo" where
  "exampleShardInfo owner rangeID =
   \<lparr>si_ShardID = 3, si_Owner = owner, si_RangeID = rangeID, si_StolenSinceRenew = 0,
    si_ReplicationAckLevel = 0, si_TransferAckLevel = 0, si_TimerAckLevel = CNull,
    si_ClusterTransferAckLevel = CNull, si_ClusterTimerAckLevel = CNull,
    si_DomainNotificationVersion = 0\<rparr>"

definition exampleShardTable :: "string \<Rightarrow> int64 \<Rightarrow> table" where
  "exampleShardTable owner rangeID =
   [shardKey 3 \<mapsto> [(''shard'', templateShardType (exampleShardInfo owner rangeID) 0),
                   (''range_id'', CBigint rangeID)]]"

section \<open>Execution store: templates\<close>

text \<open>
  What this file uses of the repository without declaring it: the constants of package
  \<^verbatim>\<open>common\<close> and \<^verbatim>\<open>persistence\<close>, the validator of the persistence package, and the
  batch helpers of the adapter that live in its other files. They are parameters of the
  model; the task and reset helpers answer the statements they add to the batch.
\<close>

type_synonym DataBlob = "cval \<times> cval"

definition FromDataBlob :: "DataBlob \<Rightarrow> cval \<times> cval" where
  \<comment> \<open>a blob is kept as its data and its encoding\<close>
  "FromDataBlob blob = blob"

record InternalWorkflowExecutionInfo =
  ei_DomainID :: string
  ei_WorkflowID :: string
  ei_RunID :: string
  ei_ParentDomainID :: string
  ei_ParentWorkflowID :: string
  ei_ParentRunID :: string
  ei_InitiatedID :: int64
  ei_State :: WorkflowState
  ei_CloseStatus :: WorkflowCloseStatus
  ei_NextEventID :: int64
  ei_CreateRequestID :: string
  ei_Marshalled :: row

record InternalWorkflowMutation =
  wm_ExecutionInfo :: InternalWorkflowExecutionInfo
  wm_ReplicationState :: "ReplicationState option"
  wm_Condition :: int64
  wm_Changes :: cval

record InternalWorkflowSnapshot =
  ws_ExecutionInfo :: InternalWorkflowExecutionInfo
  ws_ReplicationState :: "ReplicationState option"
  ws_VersionHistories :: "DataBlob option"
  ws_ActivityInfos :: "cval list"
  ws_TimerInfos :: "cval list"
  ws_ChildExecutionInfos :: "cval list"
  ws_RequestCancelInfos :: "cval list"
  ws_SignalInfos :: "cval list"
  ws_SignalRequestedIDs :: "cval list"
  ws_TransferTasks :: "cval list"
  ws_ReplicationTasks :: "cval list"
  ws_TimerTasks :: "cval list"
  ws_Condition :: int64

record externals =
  EmptyVersion :: int64
  EmptyEventID :: int64
  FirstEventID :: int64
  UnknownNumRowsAffected :: int
  ValidateCreateWorkflowStateCloseStatus :: "WorkflowState \<Rightarrow> WorkflowCloseStatus \<Rightarrow> error option"
  assertNotCurrentExecution :: "string \<Rightarrow> string \<Rightarrow> string \<Rightarrow> error option"
  createTransferTasks :: "cval list \<Rightarrow> string \<Rightarrow> string \<Rightarrow> string \<Rightarrow> stmt list"
  createReplicationTasks :: "cval list \<Rightarrow> string \<Rightarrow> string \<Rightarrow> string \<Rightarrow> stmt list"
  createTimerTasks :: "cval list \<Rightarrow> string \<Rightarrow> string \<Rightarrow> string \<Rightarrow> int64 \<Rightarrow> stmt list"
  applyWorkflowMutationBatch :: "InternalWorkflowMutation \<Rightarrow> error + stmt list"
  applyWorkflowSnapshotBatch :: "InternalWorkflowSnapshot \<Rightarrow> error + stmt list"
  resetActivityInfos ::
    "cval list \<Rightarrow> string \<Rightarrow> string \<Rightarrow> string \<Rightarrow> bool \<Rightarrow> int64 \<Rightarrow> error + stmt list"
  resetTimerInfos :: "cval list \<Rightarrow> string \<Rightarrow> string \<Rightarrow> string \<Rightarrow> bool \<Rightarrow> int64 \<Rightarrow> stmt list"
  resetRequestCancelInfos ::
    "cval list \<Rightarrow> string \<Rightarrow> string \<Rightarrow> string \<Rightarrow> bool \<Rightarrow> int64 \<Rightarrow> stmt list"
  resetChildExecutionInfos ::
    "cval list \<Rightarrow> string \<Rightarrow> string \<Rightarrow> string \<Rightarrow> bool \<Rightarrow> int64 \<Rightarrow> error + stmt list"
  resetSignalInfos :: "cval list \<Rightarrow> string \<Rightarrow> string \<Rightarrow> string \<Rightarrow> bool \<Rightarrow> int64 \<Rightarrow> stmt list"
  resetSignalRequested ::
    "cval list \<Rightarrow> string \<Rightarrow> string \<Rightarrow> string \<Rightarrow> bool \<Rightarrow> int64 \<Rightarrow> stmt list"

definition currentExecutionColumns ::
  "string \<Rightarrow> string \<Rightarrow> string \<Rightarrow> WorkflowState \<Rightarrow> WorkflowCloseStatus \<Rightarrow> int64 \<Rightarrow> int64 \<Rightarrow>
   int64 \<Rightarrow> WorkflowState \<Rightarrow> row" where
  \<comment> \<open>\<^verbatim>\<open>current_run_id = ?, execution = {run_id: ?, create_request_id: ?, state: ?,
      close_status: ?}, replication_state = {start_version: ?, last_write_version: ?},
      workflow_last_write_version = ?, workflow_state = ?\<close>\<close>
  "currentExecutionColumns current_run_id run_id create_request_id state close_status
     start_version last_write_version workflow_last_write_version workflow_state =
   [(''current_run_id'', CUUID current_run_id),
    (''execution'', CUDT [(''run_id'', CUUID run_id),
                          (''create_request_id'', CUUID create_request_id),
                          (''state'', CState state), (''close_status'', CClose close_status)]),
    (''replication_state'', CUDT [(''start_version'', CBigint start_version),
                                  (''last_write_version'', CBigint last_write_version)]),
    (''workflow_last_write_version'', CBigint workflow_last_write_version),
    (''workflow_state'', CState workflow_state)]"

definition templateUpdateCurrentWorkflowExecutionQuery :: "row \<Rightarrow> row \<Rightarrow> string \<Rightarrow> stmt" where
  "templateUpdateCurrentWorkflowExecutionQuery columns key previous_run_id =
   Update ''executions'' key columns (IfEquals [(''current_run_id'', CUUID previous_run_id)])"

definition templateUpdateCurrentWorkflowExecutionForNewQuery ::
  "row \<Rightarrow> row \<Rightarrow> string \<Rightarrow> int64 \<Rightarrow> WorkflowState \<Rightarrow> stmt" where
  "templateUpdateCurrentWorkflowExecutionForNewQuery columns key previous_run_id
     previous_last_write_version previous_state =
   Update ''executions'' key columns
     (IfEquals [(''current_run_id'', CUUID previous_run_id),
                (''workflow_last_write_version'', CBigint previous_last_write_version),
                (''workflow_state'', CState previous_state)])"

definition templateCreateCurrentWorkflowExecutionQuery :: "row \<Rightarrow> row \<Rightarrow> stmt" where
  "templateCreateCurrentWorkflowExecutionQuery key columns =
   Insert ''executions'' key columns IfNotExists"

definition templateWorkflowExecutionType ::
  "string \<Rightarrow> string \<Rightarrow> string \<Rightarrow> string \<Rightarrow> string \<Rightarrow> string \<Rightarrow> int64 \<Rightarrow> WorkflowState \<Rightarrow>
   WorkflowCloseStatus \<Rightarrow> int64 \<Rightarrow> string \<Rightarrow> row \<Rightarrow> cval" where
  \<comment> \<open>the fields the model names, then the other marshalled fields\<close>
  "templateWorkflowExecutionType domain_id workflow_id run_id parent_domain_id
     parent_workflow_id parent_run_id initiated_id state close_status next_event_id
     create_request_id marshalled =
   CUDT ([(''domain_id'', CUUID domain_id), (''workflow_id'', CText workflow_id),
          (''run_id'', CUUID run_id), (''parent_domain_id'', CUUID parent_domain_id),
          (''parent_workflow_id'', CText parent_workflow_id),
          (''parent_run_id'', CUUID parent_run_id), (''initiated_id'', CBigint initiated_id),
          (''state'', CState state), (''close_status'', CClose close_status),
          (''next_event_id'', CBigint next_event_id),
          (''create_request_id'', CUUID create_request_id)] @ marshalled)"

definition templateReplicationStateType :: "ReplicationState \<Rightarrow> cval" where
  "templateReplicationStateType rs =
   CUDT [(''current_version'', CBigint (CurrentVersion rs)),
         (''start_version'', CBigint (StartVersion rs)),
         (''last_write_version'', CBigint (LastWriteVersion rs)),
         (''last_write_event_id'', CBigint (LastWriteEventID rs)),
         (''last_replication_info'', LastReplicationInfo rs)]"

definition templateCreateWorkflowExecutionQuery :: "row \<Rightarrow> cval \<Rightarrow> int64 \<Rightarrow> stmt" where
  "templateCreateWorkflowExecutionQuery key execution next_event_id =
   Insert ''executions'' key
     [(''execution'', execution), (''next_event_id'', CBigint next_event_id)] Unconditional"

definition templateCreateWorkflowExecutionWithReplicationQuery ::
  "row \<Rightarrow> cval \<Rightarrow> cval \<Rightarrow> int64 \<Rightarrow> stmt" where
  "templateCreateWorkflowExecutionWithReplicationQuery key execution replication_state
     next_event_id =
   Insert ''executions'' key
     [(''execution'', execution), (''replication_state'', replication_state),
      (''next_event_id'', CBigint next_event_id)] Unconditional"

definition templateCreateWorkflowExecutionWithVersionHistoriesQuery ::
  "row \<Rightarrow> cval \<Rightarrow> int64 \<Rightarrow> cval \<Rightarrow> cval \<Rightarrow> stmt" where
  "templateCreateWorkflowExecutionWithVersionHistoriesQuery key execution next_event_id
     version_histories version_histories_encoding =
   Insert ''executions'' key
     [(''execution'', execution), (''next_event_id'', CBigint next_event_id),
      (''version_histories'', version_histories),
      (''version_histories_encoding'', version_histories_encoding)] Unconditional"

definition templateCheckWorkflowExecutionQuery :: "int64 \<Rightarrow> row \<Rightarrow> int64 \<Rightarrow> stmt" where
  "templateCheckWorkflowExecutionQuery next_event_id key expected_next_event_id =
   Update ''executions'' key [(''next_event_id'', CBigint next_event_id)]
     (IfEquals [(''next_event_id'', CBigint expected_next_event_id)])"

definition templateUpdateWorkflowExecutionQuery :: "cval \<Rightarrow> int64 \<Rightarrow> row \<Rightarrow> stmt" where
  "templateUpdateWorkflowExecutionQuery execution next_event_id key =
   Update ''executions'' key
     [(''execution'', execution), (''next_event_id'', CBigint next_event_id)] Unconditional"

definition templateUpdateWorkflowExecutionWithReplicationQuery ::
  "cval \<Rightarrow> cval \<Rightarrow> int64 \<Rightarrow> row \<Rightarrow> stmt" where
  "templateUpdateWorkflowExecutionWithReplicationQuery execution replication_state
     next_event_id key =
   Update ''executions'' key
     [(''execution'', execution), (''replication_state'', replication_state),
      (''next_event_id'', CBigint next_event_id)] Unconditional"

definition templateUpdateWorkflowExecutionWithVersionHistoriesQuery ::
  "cval \<Rightarrow> int64 \<Rightarrow> cval \<Rightarrow> cval \<Rightarrow> row \<Rightarrow> stmt" where
  "templateUpdateWorkflowExecutionWithVersionHistoriesQuery execution next_event_id
     version_histories version_histories_encoding key =
   Update ''executions'' key
     [(''execution'', execution), (''next_event_id'', CBigint next_event_id),
      (''version_histories'', version_histories),
      (''version_histories_encoding'', version_histories_encoding)] Unconditional"

text \<open>\<^verbatim>\<open>batchQueryHelper\<close>: with \<open>useCondition\<close> the suffix \<^verbatim>\<open>IF next_event_id = ?\<close> and its
  argument are added to the statement.\<close>

fun templateUpdateWorkflowExecutionConditionSuffix :: "stmt \<Rightarrow> int64 \<Rightarrow> stmt" where
  "templateUpdateWorkflowExecutionConditionSuffix (Update tbl key cols c) condition =
     Update tbl key cols (IfEquals [(''next_event_id'', CBigint condition)])"
| "templateUpdateWorkflowExecutionConditionSuffix s condition = s"

definition batchQueryHelper :: "stmt list \<Rightarrow> stmt \<Rightarrow> bool \<Rightarrow> int64 \<Rightarrow> stmt list" where
  "batchQueryHelper batch stmt useCondition condition =
   batch @ [if useCondition then templateUpdateWorkflowExecutionConditionSuffix stmt condition
            else stmt]"

section \<open>Execution store: the create path\<close>

definition pointerKey :: "int \<Rightarrow> string \<Rightarrow> string \<Rightarrow> row" where
  \<comment> \<open>the key of the current-execution row of a workflow id\<close>
  "pointerKey shardID domainID workflowID =
   executionsKey shardID rowTypeExecution domainID workflowID permanentRunID
     defaultVisibilityTimestamp rowTypeExecutionTaskID"

definition executionKey :: "int \<Rightarrow> string \<Rightarrow> string \<Rightarrow> string \<Rightarrow> row" where
  \<comment> \<open>the key of the mutable state row of a run\<close>
  "executionKey shardID domainID workflowID runID =
   executionsKey shardID rowTypeExecution domainID workflowID runID
     defaultVisibilityTimestamp rowTypeExecutionTaskID"

text \<open>The \<^verbatim>\<open>switch request.CreateWorkflowMode\<close>: the statement on the current-execution
  row, if any. A dereference of a nil id panics.\<close>

definition createModeStatements ::
  "int \<Rightarrow> InternalCreateWorkflowExecutionRequest \<Rightarrow> int64 \<Rightarrow> int64 \<Rightarrow> stmt list result" where
  "createModeStatements shardID request startVersion lastWriteVersion =
   (case CreateWorkflowMode request of
      CreateWorkflowModeContinueAsNew \<Rightarrow>
        (case WorkflowId (Execution request) of
           None \<Rightarrow> Panicked
         | Some workflowId \<Rightarrow>
             Done [templateUpdateCurrentWorkflowExecutionQuery
                     (currentExecutionColumns (GetRunId (Execution request))
                        (GetRunId (Execution request)) (RequestID request) (State request)
                        (CloseStatus request) startVersion lastWriteVersion lastWriteVersion
                        (State request))
                     (pointerKey shardID (DomainID request) workflowId)
                     (PreviousRunID request)])
    | CreateWorkflowModeWorkflowIDReuse \<Rightarrow>
        (case RunId (Execution request) of
           None \<Rightarrow> Panicked
         | Some runId \<Rightarrow>
            (case WorkflowId (Execution request) of
               None \<Rightarrow> Panicked
             | Some workflowId \<Rightarrow>
                 Done [templateUpdateCurrentWorkflowExecutionForNewQuery
                         (currentExecutionColumns runId runId (RequestID request)
                            (State request) (CloseStatus request) startVersion
                            lastWriteVersion lastWriteVersion (State request))
                         (pointerKey shardID (DomainID request) workflowId)
                         (PreviousRunID request) (PreviousLastWriteVersion request)
                         WorkflowStateCompleted]))
    | CreateWorkflowModeBrandNew \<Rightarrow>
        (case WorkflowId (Execution request) of
           None \<Rightarrow> Panicked
         | Some workflowId \<Rightarrow>
            (case RunId (Execution request) of
               None \<Rightarrow> Panicked
             | Some runId \<Rightarrow>
                 Done [templateCreateCurrentWorkflowExecutionQuery
                         (pointerKey shardID (DomainID request) workflowId)
                         (currentExecutionColumns runId runId (RequestID request)
                            (State request) (CloseStatus request) startVersion
                            lastWriteVersion lastWriteVersion (State request))]))
    | CreateWorkflowModeZombie \<Rightarrow>
        (if State request \<noteq> WorkflowStateZombie \<or>
            CloseStatus request \<noteq> WorkflowCloseStatusNone
         then Failed InternalServiceError
         else Done [])
    | CreateWorkflowModeOther _ \<Rightarrow> Panicked)"

text \<open>The insert of the run's own row, in its three shapes.\<close>

definition createExecutionStatement ::
  "int \<Rightarrow> InternalCreateWorkflowExecutionRequest \<Rightarrow> stmt result" where
  "createExecutionStatement shardID request =
   (let parented = (ParentDomainID request \<noteq> []);
        parentDomainID = (if parented then ParentDomainID request else emptyDomainID);
        parentWorkflowID = (if parented then GetWorkflowId (ParentExecution request) else []);
        parentRunID = (if parented then GetRunId (ParentExecution request) else emptyRunID);
        initiatedID = (if parented then InitiatedID request else emptyInitiatedID);
        execution = (\<lambda>workflowId runId.
          templateWorkflowExecutionType (DomainID request) workflowId runId parentDomainID
            parentWorkflowID parentRunID initiatedID (State request) (CloseStatus request)
            (NextEventID request) (RequestID request) (Marshalled request))
    in case ReplicationState request of
         Some replicationState \<Rightarrow>
           Done (templateCreateWorkflowExecutionWithReplicationQuery
                   (executionKey shardID (DomainID request)
                      (GetWorkflowId (Execution request)) (GetRunId (Execution request)))
                   (execution (GetWorkflowId (Execution request))
                      (GetRunId (Execution request)))
                   (templateReplicationStateType replicationState) (NextEventID request))
       | None \<Rightarrow>
          (case VersionHistories request of
             Some versionHistories \<Rightarrow>
               (case WorkflowId (Execution request) of
                  None \<Rightarrow> Panicked
                | Some workflowId \<Rightarrow>
                   (case RunId (Execution request) of
                      None \<Rightarrow> Panicked
                    | Some runId \<Rightarrow>
                        Done (templateCreateWorkflowExecutionWithVersionHistoriesQuery
                                (executionKey shardID (DomainID request) workflowId runId)
                                (execution workflowId runId) (NextEventID request)
                                (fst (FromDataBlob versionHistories))
                                (snd (FromDataBlob versionHistories)))))
           | None \<Rightarrow>
               Done (templateCreateWorkflowExecutionQuery
                       (executionKey shardID (DomainID request)
                          (GetWorkflowId (Execution request)) (GetRunId (Execution request)))
                       (execution (GetWorkflowId (Execution request))
                          (GetRunId (Execution request)))
                       (NextEventID request))))"

text \<open>\<^verbatim>\<open>CreateWorkflowExecutionWithinBatch\<close> answers the grown batch and the request, whose
  mode it may have rewritten in place.\<close>

definition CreateWorkflowExecutionWithinBatch ::
  "externals \<Rightarrow> int \<Rightarrow> InternalCreateWorkflowExecutionRequest \<Rightarrow> stmt list \<Rightarrow>
   (stmt list \<times> InternalCreateWorkflowExecutionRequest) result" where
  "CreateWorkflowExecutionWithinBatch x shardID request batch =
   (case ValidateCreateWorkflowStateCloseStatus x (State request) (CloseStatus request) of
      Some err \<Rightarrow> Failed err
    | None \<Rightarrow>
       (let startVersion = (case ReplicationState request of
                              Some rs \<Rightarrow> StartVersion rs | None \<Rightarrow> EmptyVersion x);
            lastWriteVersion = (case ReplicationState request of
                                  Some rs \<Rightarrow> LastWriteVersion rs | None \<Rightarrow> EmptyVersion x);
            request' = (if ReplicationState request = None \<and>
                           CreateWorkflowMode request = CreateWorkflowModeWorkflowIDReuse
                        then request\<lparr>CreateWorkflowMode := CreateWorkflowModeContinueAsNew\<rparr>
                        else request)
        in case createModeStatements shardID request' startVersion lastWriteVersion of
             Panicked \<Rightarrow> Panicked
           | Failed err \<Rightarrow> Failed err
           | Done pointer \<Rightarrow>
              (case createExecutionStatement shardID request' of
                 Panicked \<Rightarrow> Panicked
               | Failed err \<Rightarrow> Failed err
               | Done execution \<Rightarrow> Done (batch @ pointer @ [execution], request'))))"

definition batchFailure :: "gocql_error \<Rightarrow> error" where
  \<comment> \<open>the error of a batch that the driver could not complete\<close>
  "batchFailure err =
   (if isTimeoutError err then TimeoutError
    else if isThrottlingError err then ServiceBusyError
    else InternalServiceError)"

definition leaseStatement :: "int \<Rightarrow> int64 \<Rightarrow> stmt" where
  \<comment> \<open>the final statement of every batch: the shard's range id is written back under the
      condition that it is the caller's\<close>
  "leaseStatement shardID rangeID = templateUpdateLeaseQuery rangeID (shardKey shardID) rangeID"

definition CreateWorkflowExecution ::
  "session \<Rightarrow> externals \<Rightarrow> int \<Rightarrow> int64 \<Rightarrow> InternalCreateWorkflowExecutionRequest \<Rightarrow>
   event list \<times> unit result" where
  "CreateWorkflowExecution d x shardID cqlNowTimestamp request =
   (let zombie = (CreateWorkflowMode request = CreateWorkflowModeZombie);
        asserted = (if zombie
                    then [AssertedNotCurrent (DomainID request)
                            (GetWorkflowId (Execution request)) (GetRunId (Execution request))]
                    else [])
    in case (if zombie
             then assertNotCurrentExecution x (DomainID request)
                    (GetWorkflowId (Execution request)) (GetRunId (Execution request))
             else None) of
         Some err \<Rightarrow> (asserted, Failed err)
       | None \<Rightarrow>
          (case CreateWorkflowExecutionWithinBatch x shardID request [] of
             Panicked \<Rightarrow> (asserted, Panicked)
           | Failed err \<Rightarrow> (asserted, Failed err)
           | Done (batch, request') \<Rightarrow>
              (case WorkflowId (Execution request') of
                 None \<Rightarrow> (asserted, Panicked)
               | Some workflowId \<Rightarrow>
                  (case RunId (Execution request') of
                     None \<Rightarrow> (asserted, Panicked)
                   | Some runId \<Rightarrow>
                      (let batch' = batch
                             @ createTransferTasks x (TransferTasks request')
                                 (DomainID request') workflowId runId
                             @ createReplicationTasks x (ReplicationTasks request')
                                 (DomainID request') workflowId runId
                             @ createTimerTasks x (TimerTasks request')
                                 (DomainID request') workflowId runId cqlNowTimestamp
                             @ [leaseStatement shardID (RangeID request')]
                       in (asserted @ [Batched batch'],
                           (case MapExecuteBatchCAS d batch' of
                              BatchError err \<Rightarrow> Failed (batchFailure err)
                            | BatchReply applied previous iter \<Rightarrow>
                                (if \<not> applied then
                                   (case createFailureReason shardID request' previous iter of
                                      Panics \<Rightarrow> Panicked
                                    | Returns e \<Rightarrow> Failed e)
                                 else Done ()))))))))"

section \<open>Execution store: the update and reset paths\<close>

text \<open>\<^verbatim>\<open>updateMutableState\<close> adds one update of the run's row, in three shapes. The empty
  parent ids are replaced by the reserved ones; the time of the update goes into the
  marshalled fields.\<close>

definition updateMutableState ::
  "int \<Rightarrow> stmt list \<Rightarrow> InternalWorkflowExecutionInfo \<Rightarrow> ReplicationState option \<Rightarrow>
   DataBlob option \<Rightarrow> bool \<Rightarrow> int64 \<Rightarrow> stmt list" where
  "updateMutableState shardID batch executionInfo replicationState versionHistories
     useCondition condition =
   (let parentDomainID = (if ei_ParentDomainID executionInfo = [] then emptyDomainID
                          else ei_ParentDomainID executionInfo);
        parentRunID = (if ei_ParentRunID executionInfo = [] then emptyRunID
                       else ei_ParentRunID executionInfo);
        execution = templateWorkflowExecutionType (ei_DomainID executionInfo)
          (ei_WorkflowID executionInfo) (ei_RunID executionInfo) parentDomainID
          (ei_ParentWorkflowID executionInfo) parentRunID (ei_InitiatedID executionInfo)
          (ei_State executionInfo) (ei_CloseStatus executionInfo)
          (ei_NextEventID executionInfo) (ei_CreateRequestID executionInfo)
          (ei_Marshalled executionInfo);
        key = executionKey shardID (ei_DomainID executionInfo) (ei_WorkflowID executionInfo)
                (ei_RunID executionInfo)
    in case replicationState of
         Some rs \<Rightarrow>
           batchQueryHelper batch
             (templateUpdateWorkflowExecutionWithReplicationQuery execution
                (templateReplicationStateType rs) (ei_NextEventID executionInfo) key)
             useCondition condition
       | None \<Rightarrow>
          (case versionHistories of
             Some vh \<Rightarrow>
               batchQueryHelper batch
                 (templateUpdateWorkflowExecutionWithVersionHistoriesQuery execution
                    (ei_NextEventID executionInfo) (fst (FromDataBlob vh))
                    (snd (FromDataBlob vh)) key)
                 useCondition condition
           | None \<Rightarrow>
               batchQueryHelper batch
                 (templateUpdateWorkflowExecutionQuery execution
                    (ei_NextEventID executionInfo) key)
                 useCondition condition))"

text \<open>The tail that the update and reset operations share, word for word: the lease
  statement, the batch, the mapping of a driver error, and the classifier on rejection.\<close>

definition executeAndClassify ::
  "session \<Rightarrow> int \<Rightarrow> event list \<Rightarrow> stmt list \<Rightarrow> int64 \<Rightarrow> string \<Rightarrow> int64 \<Rightarrow> string \<Rightarrow>
   event list \<times> unit result" where
  "executeAndClassify d shardID events batch rangeID requestRunID requestCondition
     requestConditionalRunID =
   (let batch' = batch @ [leaseStatement shardID rangeID]
    in (events @ [Batched batch'],
        (case MapExecuteBatchCAS d batch' of
           BatchError err \<Rightarrow> Failed (batchFailure err)
         | BatchReply applied previous iter \<Rightarrow>
             (if \<not> applied then
                (case getExecutionConditionalUpdateFailure shardID previous iter requestRunID
                        requestCondition rangeID requestConditionalRunID of
                   Panics \<Rightarrow> Panicked
                 | Returns e \<Rightarrow> Failed e)
              else Done ()))))"

record InternalUpdateWorkflowExecutionRequest =
  uw_RangeID :: int64
  uw_UpdateWorkflowMutation :: InternalWorkflowMutation
  uw_ContinueAsNew :: "InternalCreateWorkflowExecutionRequest option"

definition UpdateWorkflowExecution ::
  "session \<Rightarrow> externals \<Rightarrow> int \<Rightarrow> int64 \<Rightarrow> InternalUpdateWorkflowExecutionRequest \<Rightarrow>
   event list \<times> unit result" where
  "UpdateWorkflowExecution d x shardID cqlNowTimestamp request =
   (let updateWorkflow = uw_UpdateWorkflowMutation request;
        executionInfo = wm_ExecutionInfo updateWorkflow;
        finish = (\<lambda>events batch.
          executeAndClassify d shardID events batch (uw_RangeID request)
            (ei_RunID executionInfo) (wm_Condition updateWorkflow) (ei_RunID executionInfo))
    in case applyWorkflowMutationBatch x updateWorkflow of
         Inl err \<Rightarrow> ([], Failed err)
       | Inr batch \<Rightarrow>
          (case uw_ContinueAsNew request of
             Some startReq \<Rightarrow>
               (case CreateWorkflowExecutionWithinBatch x shardID startReq batch of
                  Panicked \<Rightarrow> ([], Panicked)
                | Failed err \<Rightarrow> ([], Failed err)
                | Done (batch', startReq') \<Rightarrow>
                    finish []
                      (batch'
                       @ createTransferTasks x (TransferTasks startReq') (DomainID startReq')
                           (GetWorkflowId (Execution startReq')) (GetRunId (Execution startReq'))
                       @ createTimerTasks x (TimerTasks startReq') (DomainID startReq')
                           (GetWorkflowId (Execution startReq')) (GetRunId (Execution startReq'))
                           cqlNowTimestamp))
           | None \<Rightarrow>
              (case ei_State executionInfo of
                 WorkflowStateZombie \<Rightarrow>
                   (case assertNotCurrentExecution x (ei_DomainID executionInfo)
                           (ei_WorkflowID executionInfo) (ei_RunID executionInfo) of
                      Some err \<Rightarrow>
                        ([AssertedNotCurrent (ei_DomainID executionInfo)
                            (ei_WorkflowID executionInfo) (ei_RunID executionInfo)], Failed err)
                    | None \<Rightarrow>
                        finish [AssertedNotCurrent (ei_DomainID executionInfo)
                                  (ei_WorkflowID executionInfo) (ei_RunID executionInfo)] batch)
               | WorkflowStateOther _ \<Rightarrow> ([], Failed InternalServiceError)
               | _ \<Rightarrow>
                   finish []
                     (batch @
                      [templateUpdateCurrentWorkflowExecutionQuery
                         (currentExecutionColumns (ei_RunID executionInfo)
                            (ei_RunID executionInfo) (ei_CreateRequestID executionInfo)
                            (ei_State executionInfo) (ei_CloseStatus executionInfo)
                            (case wm_ReplicationState updateWorkflow of
                               Some rs \<Rightarrow> StartVersion rs | None \<Rightarrow> EmptyVersion x)
                            (case wm_ReplicationState updateWorkflow of
                               Some rs \<Rightarrow> LastWriteVersion rs | None \<Rightarrow> EmptyVersion x)
                            (case wm_ReplicationState updateWorkflow of
                               Some rs \<Rightarrow> LastWriteVersion rs | None \<Rightarrow> EmptyVersion x)
                            (ei_State executionInfo))
                         (pointerKey shardID (ei_DomainID executionInfo)
                            (ei_WorkflowID executionInfo))
                         (ei_RunID executionInfo)]))))"

record InternalResetWorkflowExecutionRequest =
  rw_PrevRunVersion :: int64
  rw_PrevRunState :: WorkflowState
  rw_Condition :: int64
  rw_RangeID :: int64
  rw_BaseRunID :: string
  rw_BaseRunNextEventID :: int64
  rw_CurrExecutionInfo :: InternalWorkflowExecutionInfo
  rw_CurrReplicationState :: "ReplicationState option"
  rw_CurrVersionHistories :: "DataBlob option"
  rw_CurrReplicationTasks :: "cval list"
  rw_CurrTransferTasks :: "cval list"
  rw_CurrTimerTasks :: "cval list"
  rw_NewWorkflowSnapshot :: InternalWorkflowSnapshot
  rw_UpdateCurr :: bool

text \<open>The statement on the current-execution row with which \<^verbatim>\<open>ResetWorkflowExecution\<close>
  opens its batch.\<close>

definition resetPointerStatement ::
  "externals \<Rightarrow> int \<Rightarrow> InternalResetWorkflowExecutionRequest \<Rightarrow> stmt" where
  "resetPointerStatement x shardID request =
   (let currExecutionInfo = rw_CurrExecutionInfo request;
        insertExecutionInfo = ws_ExecutionInfo (rw_NewWorkflowSnapshot request);
        insertReplicationState = ws_ReplicationState (rw_NewWorkflowSnapshot request);
        startVersion = (case insertReplicationState of
                          Some rs \<Rightarrow> StartVersion rs | None \<Rightarrow> EmptyVersion x);
        lastWriteVersion = (case insertReplicationState of
                              Some rs \<Rightarrow> LastWriteVersion rs | None \<Rightarrow> EmptyVersion x);
        columns = currentExecutionColumns (ei_RunID insertExecutionInfo)
                    (ei_RunID insertExecutionInfo) (ei_CreateRequestID insertExecutionInfo)
                    (ei_State insertExecutionInfo) (ei_CloseStatus insertExecutionInfo)
                    startVersion lastWriteVersion lastWriteVersion
                    (ei_State insertExecutionInfo);
        key = pointerKey shardID (ei_DomainID insertExecutionInfo)
                (ei_WorkflowID insertExecutionInfo)
    in case rw_CurrReplicationState request of
         None \<Rightarrow>
           templateUpdateCurrentWorkflowExecutionQuery columns key (ei_RunID currExecutionInfo)
       | Some _ \<Rightarrow>
           templateUpdateCurrentWorkflowExecutionForNewQuery columns key
             (ei_RunID currExecutionInfo) (rw_PrevRunVersion request) (rw_PrevRunState request))"

text \<open>The check of the fork-point run: added only when the base run is not the current
  run.\<close>

definition forkRunCheck :: "int \<Rightarrow> InternalResetWorkflowExecutionRequest \<Rightarrow> stmt list" where
  "forkRunCheck shardID request =
   (if rw_BaseRunID request \<noteq> ei_RunID (rw_CurrExecutionInfo request) then
      [templateCheckWorkflowExecutionQuery (rw_BaseRunNextEventID request)
         (executionKey shardID (ei_DomainID (rw_CurrExecutionInfo request))
            (ei_WorkflowID (rw_CurrExecutionInfo request)) (rw_BaseRunID request))
         (rw_BaseRunNextEventID request)]
    else [])"

text \<open>Everything \<^verbatim>\<open>ResetWorkflowExecution\<close> adds after the fork-point check and before
  the lease statement; the two reset helpers that can fail end the operation.\<close>

definition resetRemainder ::
  "externals \<Rightarrow> int \<Rightarrow> int64 \<Rightarrow> InternalResetWorkflowExecutionRequest \<Rightarrow> stmt list \<Rightarrow>
   error + stmt list" where
  "resetRemainder x shardID cqlNowTimestamp request batch =
   (let curr = rw_CurrExecutionInfo request;
        snapshot = rw_NewWorkflowSnapshot request;
        ins = ws_ExecutionInfo snapshot;
        b1 = (if rw_UpdateCurr request then
                updateMutableState shardID batch curr (rw_CurrReplicationState request)
                  (rw_CurrVersionHistories request) True (rw_Condition request)
                @ createTimerTasks x (rw_CurrTimerTasks request) (ei_DomainID curr)
                    (ei_WorkflowID curr) (ei_RunID curr) cqlNowTimestamp
                @ createTransferTasks x (rw_CurrTransferTasks request) (ei_DomainID curr)
                    (ei_WorkflowID curr) (ei_RunID curr)
              else
                batch @
                [templateCheckWorkflowExecutionQuery (rw_Condition request)
                   (executionKey shardID (ei_DomainID curr) (ei_WorkflowID curr) (ei_RunID curr))
                   (rw_Condition request)]);
        b2 = b1
             @ (if ws_ReplicationTasks snapshot \<noteq> [] then
                  createReplicationTasks x (ws_ReplicationTasks snapshot) (ei_DomainID ins)
                    (ei_WorkflowID ins) (ei_RunID ins)
                else [])
             @ (if rw_CurrReplicationTasks request \<noteq> [] then
                  createReplicationTasks x (rw_CurrReplicationTasks request) (ei_DomainID curr)
                    (ei_WorkflowID curr) (ei_RunID curr)
                else []);
        b3 = updateMutableState shardID b2 ins (ws_ReplicationState snapshot)
               (ws_VersionHistories snapshot) False 0
    in case (if ws_ActivityInfos snapshot \<noteq> [] then
               resetActivityInfos x (ws_ActivityInfos snapshot) (ei_DomainID ins)
                 (ei_WorkflowID ins) (ei_RunID ins) False 0
             else Inr []) of
         Inl err \<Rightarrow> Inl err
       | Inr activities \<Rightarrow>
          (let b4 = b3 @ activities
                    @ (if ws_TimerInfos snapshot \<noteq> [] then
                         resetTimerInfos x (ws_TimerInfos snapshot) (ei_DomainID ins)
                           (ei_WorkflowID ins) (ei_RunID ins) False 0
                       else [])
                    @ (if ws_RequestCancelInfos snapshot \<noteq> [] then
                         resetRequestCancelInfos x (ws_RequestCancelInfos snapshot)
                           (ei_DomainID ins) (ei_WorkflowID ins) (ei_RunID ins) False 0
                       else [])
           in case (if ws_ChildExecutionInfos snapshot \<noteq> [] then
                      resetChildExecutionInfos x (ws_ChildExecutionInfos snapshot)
                        (ei_DomainID ins) (ei_WorkflowID ins) (ei_RunID ins) False 0
                    else Inr []) of
                Inl err \<Rightarrow> Inl err
              | Inr children \<Rightarrow>
                  Inr (b4 @ children
                       @ (if ws_SignalInfos snapshot \<noteq> [] then
                            resetSignalInfos x (ws_SignalInfos snapshot) (ei_DomainID ins)
                              (ei_WorkflowID ins) (ei_RunID ins) False 0
                          else [])
                       @ (if ws_SignalRequestedIDs snapshot \<noteq> [] then
                            resetSignalRequested x (ws_SignalRequestedIDs snapshot)
                              (ei_DomainID ins) (ei_WorkflowID ins) (ei_RunID ins) False 0
                          else [])
                       @ (if ws_TimerTasks snapshot \<noteq> [] then
                            createTimerTasks x (ws_TimerTasks snapshot) (ei_DomainID ins)
                              (ei_WorkflowID ins) (ei_RunID ins) cqlNowTimestamp
                          else [])
                       @ (if ws_TransferTasks snapshot \<noteq> [] then
                            createTransferTasks x (ws_TransferTasks snapshot) (ei_DomainID ins)
                              (ei_WorkflowID ins) (ei_RunID ins)
                          else []))))"

definition resetBatch ::
  "externals \<Rightarrow> int \<Rightarrow> int64 \<Rightarrow> InternalResetWorkflowExecutionRequest \<Rightarrow> error + stmt list" where
  \<comment> \<open>the batch of \<^verbatim>\<open>ResetWorkflowExecution\<close> before its lease statement\<close>
  "resetBatch x shardID cqlNowTimestamp request =
   resetRemainder x shardID cqlNowTimestamp request
     ([resetPointerStatement x shardID request] @ forkRunCheck shardID request)"

definition ResetWorkflowExecution ::
  "session \<Rightarrow> externals \<Rightarrow> int \<Rightarrow> int64 \<Rightarrow> InternalResetWorkflowExecutionRequest \<Rightarrow>
   event list \<times> unit result" where
  "ResetWorkflowExecution d x shardID cqlNowTimestamp request =
   (case resetBatch x shardID cqlNowTimestamp request of
      Inl err \<Rightarrow> ([], Failed err)
    | Inr batch \<Rightarrow>
        executeAndClassify d shardID [] batch (rw_RangeID request)
          (ei_RunID (rw_CurrExecutionInfo request)) (rw_Condition request)
          (ei_RunID (rw_CurrExecutionInfo request)))"

record InternalResetMutableStateRequest =
  rm_PrevRunID :: string
  rm_PrevLastWriteVersion :: int64
  rm_PrevState :: WorkflowState
  rm_ResetWorkflowSnapshot :: InternalWorkflowSnapshot
  rm_RangeID :: int64

definition ResetMutableState ::
  "session \<Rightarrow> externals \<Rightarrow> int \<Rightarrow> InternalResetMutableStateRequest \<Rightarrow>
   event list \<times> unit result" where
  "ResetMutableState d x shardID request =
   (let resetWorkflow = rm_ResetWorkflowSnapshot request;
        executionInfo = ws_ExecutionInfo resetWorkflow
    in case ws_ReplicationState resetWorkflow of
         None \<Rightarrow> ([], Panicked)
       | Some replicationState \<Rightarrow>
          (case applyWorkflowSnapshotBatch x resetWorkflow of
             Inl err \<Rightarrow> ([], Failed err)
           | Inr added \<Rightarrow>
               executeAndClassify d shardID []
                 ([templateUpdateCurrentWorkflowExecutionForNewQuery
                     (currentExecutionColumns (ei_RunID executionInfo) (ei_RunID executionInfo)
                        (ei_CreateRequestID executionInfo) (ei_State executionInfo)
                        (ei_CloseStatus executionInfo) (StartVersion replicationState)
                        (LastWriteVersion replicationState) (LastWriteVersion replicationState)
                        (ei_State executionInfo))
                     (pointerKey shardID (ei_DomainID executionInfo)
                        (ei_WorkflowID executionInfo))
                     (rm_PrevRunID request) (rm_PrevLastWriteVersion request)
                     (rm_PrevState request)] @ added)
                 (rm_RangeID request) (ei_RunID executionInfo) (ws_Condition resetWorkflow)
                 (rm_PrevRunID request)))"

section \<open>Task list store\<close>

definition templateTaskListType :: "string \<Rightarrow> string \<Rightarrow> int \<Rightarrow> int64 \<Rightarrow> int \<Rightarrow> cval \<Rightarrow> cval" where
  "templateTaskListType domain_id name type ack_level kind last_updated =
   CUDT [(''domain_id'', CUUID domain_id), (''name'', CText name), (''type'', CInt type),
         (''ack_level'', CBigint ack_level), (''kind'', CInt kind),
         (''last_updated'', last_updated)]"

definition templateGetTaskList :: "row \<Rightarrow> stmt" where
  "templateGetTaskList key =
   Select ''tasks'' [''range_id'', ''task_list''] (map (\<lambda>(c, v). (c, EQ, v)) key)"

definition templateInsertTaskListQuery :: "row \<Rightarrow> int64 \<Rightarrow> cval \<Rightarrow> stmt" where
  "templateInsertTaskListQuery key range_id task_list =
   Insert ''tasks'' key [(''range_id'', CBigint range_id), (''task_list'', task_list)]
     IfNotExists"

definition templateUpdateTaskListQuery :: "int64 \<Rightarrow> cval \<Rightarrow> row \<Rightarrow> int64 \<Rightarrow> stmt" where
  "templateUpdateTaskListQuery range_id task_list key expected_range_id =
   Update ''tasks'' key [(''range_id'', CBigint range_id), (''task_list'', task_list)]
     (IfEquals [(''range_id'', CBigint expected_range_id)])"

definition templateGetTasksQuery :: "string \<Rightarrow> string \<Rightarrow> int \<Rightarrow> int \<Rightarrow> int64 \<Rightarrow> int64 \<Rightarrow> stmt" where
  "templateGetTasksQuery domain_id task_list_name task_list_type type read_level
     max_read_level =
   Select ''tasks'' [''task_id'', ''task'']
     [(''domain_id'', EQ, CUUID domain_id), (''task_list_name'', EQ, CText task_list_name),
      (''task_list_type'', EQ, CInt task_list_type), (''type'', EQ, CInt type),
      (''task_id'', GT, CBigint read_level), (''task_id'', LE, CBigint max_read_level)]"

definition templateCompleteTasksLessThanQuery ::
  "string \<Rightarrow> string \<Rightarrow> int \<Rightarrow> int \<Rightarrow> int64 \<Rightarrow> stmt" where
  "templateCompleteTasksLessThanQuery domain_id task_list_name task_list_type type task_id =
   Delete ''tasks''
     [(''domain_id'', EQ, CUUID domain_id), (''task_list_name'', EQ, CText task_list_name),
      (''task_list_type'', EQ, CInt task_list_type), (''type'', EQ, CInt type),
      (''task_id'', LE, CBigint task_id)] Unconditional"

record LeaseTaskListRequest =
  lt_DomainID :: string
  lt_TaskList :: string
  lt_TaskType :: int
  lt_TaskListKind :: int
  lt_RangeID :: int64

record TaskListInfo =
  tli_DomainID :: string
  tli_Name :: string
  tli_TaskType :: int
  tli_RangeID :: int64
  tli_AckLevel :: int64
  tli_Kind :: int
  tli_LastUpdated :: cval

definition taskListKey :: "LeaseTaskListRequest \<Rightarrow> row" where
  "taskListKey request =
   tasksKey (lt_DomainID request) (lt_TaskList request) (lt_TaskType request) rowTypeTaskList
     taskListTaskID"

text \<open>The second half of \<^verbatim>\<open>LeaseTaskList\<close>: the conditional write and the response,
  whose range id is the one read (zero when nothing was read) plus one.\<close>

definition leaseWrite ::
  "session \<Rightarrow> cval \<Rightarrow> LeaseTaskListRequest \<Rightarrow> event list \<Rightarrow> stmt \<Rightarrow> int64 \<Rightarrow> int64 \<Rightarrow>
   event list \<times> TaskListInfo result" where
  "leaseWrite d now request events query rangeID ackLevel =
   (events @ [Queried query],
    (case MapScanCAS d query of
       CasError err \<Rightarrow>
         (if isThrottlingError err then Failed ServiceBusyError
          else Failed InternalServiceError)
     | CasReply applied previous \<Rightarrow>
         (if \<not> applied then
            Failed (ConditionFailedError
              ([CText (lt_TaskList request), CInt (lt_TaskType request), CBigint rangeID,
                case map_of previous ''range_id'' of Some v \<Rightarrow> v | None \<Rightarrow> CNull], []))
          else
            Done \<lparr>tli_DomainID = lt_DomainID request, tli_Name = lt_TaskList request,
                  tli_TaskType = lt_TaskType request, tli_RangeID = rangeID + 1,
                  tli_AckLevel = ackLevel, tli_Kind = lt_TaskListKind request,
                  tli_LastUpdated = now\<rparr>)))"

definition LeaseTaskList ::
  "session \<Rightarrow> cval \<Rightarrow> LeaseTaskListRequest \<Rightarrow> event list \<times> TaskListInfo result" where
  "LeaseTaskList d now request =
   (if length (lt_TaskList request) = 0 then ([], Failed InternalServiceError)
    else
      (let query = templateGetTaskList (taskListKey request)
       in case Scan d query of
            ScanError err \<Rightarrow>
              (if isErrNotFound err then
                 leaseWrite d now request [Queried query]
                   (templateInsertTaskListQuery (taskListKey request) initialRangeID
                      (templateTaskListType (lt_DomainID request) (lt_TaskList request)
                         (lt_TaskType request) 0 (lt_TaskListKind request) now))
                   0 0
               else if isThrottlingError err then ([Queried query], Failed ServiceBusyError)
               else ([Queried query], Failed InternalServiceError))
          | ScanRow rangeID tlDB \<Rightarrow>
              (if 0 < sint (lt_RangeID request) \<and> lt_RangeID request \<noteq> rangeID then
                 ([Queried query],
                  Failed (ConditionFailedError
                    ([CText (lt_TaskList request), CInt (lt_TaskType request),
                      CBigint (lt_RangeID request), CBigint rangeID], [])))
               else
                 (case as_int64 tlDB ''ack_level'' of
                    None \<Rightarrow> ([Queried query], Panicked)
                  | Some ackLevel \<Rightarrow>
                     (case as_int tlDB ''kind'' of
                        None \<Rightarrow> ([Queried query], Panicked)
                      | Some taskListKind \<Rightarrow>
                          leaseWrite d now request [Queried query]
                            (templateUpdateTaskListQuery (rangeID + 1)
                               (templateTaskListType (lt_DomainID request)
                                  (lt_TaskList request) (lt_TaskType request) ackLevel
                                  taskListKind now)
                               (taskListKey request) rangeID)
                            rangeID ackLevel)))))"

record GetTasksRequest =
  gt_DomainID :: string
  gt_TaskList :: string
  gt_TaskType :: int
  gt_ReadLevel :: int64
  gt_MaxReadLevel :: "int64 option"
  gt_BatchSize :: int

text \<open>The loop \<^verbatim>\<open>PopulateTasks\<close>: a row without \<open>task_id\<close> is skipped; a task is its id
  and its \<open>task\<close> column; the loop stops when the number of tasks equals the batch size.\<close>

fun PopulateTasks :: "row list \<Rightarrow> int \<Rightarrow> (int64 \<times> row) list \<Rightarrow> (int64 \<times> row) list go" where
  "PopulateTasks [] batchSize tasks = Returns tasks"
| "PopulateTasks (task # rest) batchSize tasks =
     (case map_of task ''task_id'' of
        None \<Rightarrow> PopulateTasks rest batchSize tasks
      | Some taskID \<Rightarrow>
         (case as_map task ''task'' of
            None \<Rightarrow> Panics
          | Some t \<Rightarrow>
             (case taskID of
                CBigint i \<Rightarrow>
                  (if int (length (tasks @ [(i, t)])) = batchSize then Returns (tasks @ [(i, t)])
                   else PopulateTasks rest batchSize (tasks @ [(i, t)]))
              | _ \<Rightarrow> Panics)))"

definition GetTasks ::
  "session \<Rightarrow> GetTasksRequest \<Rightarrow> event list \<times> (int64 \<times> row) list result" where
  "GetTasks d request =
   (case gt_MaxReadLevel request of
      None \<Rightarrow> ([], Failed InternalServiceError)
    | Some maxReadLevel \<Rightarrow>
       (if sint maxReadLevel < sint (gt_ReadLevel request) then ([], Done [])
        else
          (let query = templateGetTasksQuery (gt_DomainID request) (gt_TaskList request)
                         (gt_TaskType request) rowTypeTask (gt_ReadLevel request) maxReadLevel
           in ([Queried query],
               (case Iter d query (gt_BatchSize request) of
                  IterNil \<Rightarrow> Failed InternalServiceError
                | IterRows rows closeError \<Rightarrow>
                   (case PopulateTasks rows (gt_BatchSize request) [] of
                      Panics \<Rightarrow> Panicked
                    | Returns tasks \<Rightarrow>
                       (case closeError of
                          Some err \<Rightarrow> Failed InternalServiceError
                        | None \<Rightarrow> Done tasks)))))))"

record CompleteTasksLessThanRequest =
  ct_DomainID :: string
  ct_TaskListName :: string
  ct_TaskType :: int
  ct_TaskID :: int64

definition CompleteTasksLessThan ::
  "session \<Rightarrow> externals \<Rightarrow> CompleteTasksLessThanRequest \<Rightarrow> event list \<times> int \<times> error option" where
  "CompleteTasksLessThan d x request =
   (let query = templateCompleteTasksLessThanQuery (ct_DomainID request)
                  (ct_TaskListName request) (ct_TaskType request) rowTypeTask
                  (ct_TaskID request)
    in ([Queried query],
        (case Exec d query of
           Some err \<Rightarrow>
             (if isThrottlingError err then (0, Some ServiceBusyError)
              else (0, Some InternalServiceError))
         | None \<Rightarrow> (UnknownNumRowsAffected x, None))))"

definition exampleExternals :: externals where
  "exampleExternals =
   \<lparr>EmptyVersion = - 24, EmptyEventID = - 23, FirstEventID = 1, UnknownNumRowsAffected = - 1,
    ValidateCreateWorkflowStateCloseStatus = (\<lambda>state closeStatus. None),
    assertNotCurrentExecution = (\<lambda>domainID workflowID runID. None),
    createTransferTasks = (\<lambda>tasks domainID workflowID runID. []),
    createReplicationTasks = (\<lambda>tasks domainID workflowID runID. []),
    createTimerTasks = (\<lambda>tasks domainID workflowID runID now. []),
    applyWorkflowMutationBatch = (\<lambda>mutation. Inr []),
    applyWorkflowSnapshotBatch = (\<lambda>snapshot. Inr []),
    resetActivityInfos = (\<lambda>infos domainID workflowID runID useCondition condition. Inr []),
    resetTimerInfos = (\<lambda>infos domainID workflowID runID useCondition condition. []),
    resetRequestCancelInfos = (\<lambda>infos domainID workflowID runID useCondition condition. []),
    resetChildExecutionInfos = (\<lambda>infos domainID workflowID runID useCondition condition. Inr []),
    resetSignalInfos = (\<lambda>infos domainID workflowID runID useCondition condition. []),
    resetSignalRequested = (\<lambda>infos domainID workflowID runID useCondition condition. [])\<rparr>"

definition batchSession :: "batch_reply \<Rightarrow> session" where
  "batchSession reply =
   \<lparr>MapScanCAS = (\<lambda>q. CasReply True []),
    MapExecuteBatchCAS = (\<lambda>b. reply),
    Scan = (\<lambda>q. ScanError \<lparr>isErrNotFound = True, isTimeoutError = False,
                            isThrottlingError = False\<rparr>),
    Exec = (\<lambda>q. None),
    Iter = (\<lambda>q n. IterRows [] None)\<rparr>"

definition exampleTimeout :: gocql_error where
  "exampleTimeout = \<lparr>isErrNotFound = False, isTimeoutError = True, isThrottlingError = False\<rparr>"

definition exampleTaskRow :: "int64 \<Rightarrow> row" where
  "exampleTaskRow taskID =
   [(''task_id'', CBigint taskID),
    (''task'', CUDT [(''workflow_id'', CText ''wf-1''), (''schedule_id'', CBigint 5)])]"

definition iterSession :: "row list \<Rightarrow> session" where
  "iterSession rows =
   \<lparr>MapScanCAS = (\<lambda>q. CasReply True []),
    MapExecuteBatchCAS = (\<lambda>b. BatchReply True [] []),
    Scan = (\<lambda>q. ScanError \<lparr>isErrNotFound = True, isTimeoutError = False,
                            isThrottlingError = False\<rparr>),
    Exec = (\<lambda>q. None),
    Iter = (\<lambda>q n. IterRows rows None)\<rparr>"

definition exampleGetTasksRequest :: "int64 \<Rightarrow> int64 option \<Rightarrow> int \<Rightarrow> GetTasksRequest" where
  "exampleGetTasksRequest readLevel maxReadLevel batchSize =
   \<lparr>gt_DomainID = ''domain-1'', gt_TaskList = ''list-1'', gt_TaskType = 0,
    gt_ReadLevel = readLevel, gt_MaxReadLevel = maxReadLevel, gt_BatchSize = batchSize\<rparr>"

definition execSession :: "gocql_error option \<Rightarrow> session" where
  "execSession answer =
   \<lparr>MapScanCAS = (\<lambda>q. CasReply True []),
    MapExecuteBatchCAS = (\<lambda>b. BatchReply True [] []),
    Scan = (\<lambda>q. ScanError \<lparr>isErrNotFound = True, isTimeoutError = False,
                            isThrottlingError = False\<rparr>),
    Exec = (\<lambda>q. answer),
    Iter = (\<lambda>q n. IterRows [] None)\<rparr>"

definition exampleCompleteRequest :: CompleteTasksLessThanRequest where
  "exampleCompleteRequest =
   \<lparr>ct_DomainID = ''domain-1'', ct_TaskListName = ''list-1'', ct_TaskType = 0, ct_TaskID = 9\<rparr>"

definition exampleReuseRequest :: InternalCreateWorkflowExecutionRequest where
  "exampleReuseRequest =
   exampleCreateRequest\<lparr>CreateWorkflowMode := CreateWorkflowModeWorkflowIDReuse\<rparr>"

definition exampleLeaseRequest :: "int64 \<Rightarrow> LeaseTaskListRequest" where
  "exampleLeaseRequest rangeID =
   \<lparr>lt_DomainID = ''domain-1'', lt_TaskList = ''list-1'', lt_TaskType = 0,
    lt_TaskListKind = 0, lt_RangeID = rangeID\<rparr>"

text \<open>A session over a table of task lists: the read answers the stored range id and
  \<open>task_list\<close> column, or not-found, and the conditional write is the table's.\<close>

definition taskListSession :: "table \<Rightarrow> session" where
  "taskListSession t =
   \<lparr>MapScanCAS = (\<lambda>q. fst (lwt q t)),
    MapExecuteBatchCAS = (\<lambda>b. BatchReply True [] []),
    Scan = (\<lambda>q. case q of
              Select tbl columns conds \<Rightarrow>
                (case t (map (\<lambda>(c, r, v). (c, v)) conds) of
                   None \<Rightarrow> ScanError \<lparr>isErrNotFound = True, isTimeoutError = False,
                                       isThrottlingError = False\<rparr>
                 | Some r \<Rightarrow>
                     ScanRow (case as_int64 r ''range_id'' of Some v \<Rightarrow> v | None \<Rightarrow> 0)
                             (case as_map r ''task_list'' of Some m \<Rightarrow> m | None \<Rightarrow> []))
            | _ \<Rightarrow> ScanError \<lparr>isErrNotFound = False, isTimeoutError = False,
                               isThrottlingError = False\<rparr>),
    Exec = (\<lambda>q. None),
    Iter = (\<lambda>q n. IterRows [] None)\<rparr>"

definition exampleTaskListTable :: "int64 \<Rightarrow> table" where
  "exampleTaskListTable rangeID =
   [taskListKey (exampleLeaseRequest 0) \<mapsto>
      [(''range_id'', CBigint rangeID),
       (''task_list'', templateTaskListType ''domain-1'' ''list-1'' 0 4 0 CNull)]]"

(*VERIFICATION*)
section \<open>Verification: the conditional-failure classifier\<close>

lemma inspectRow_flags:
  assumes "as_int r ''type'' = Some t" "as_uuid r ''run_id'' = Some u" "wellFormedRow r"
    "reqRun \<noteq> permanentRunID"
  shows "\<exists>s'. inspectRow r t u reqRun c rg ex s = Returns s' \<and>
     rangeIDUnmatch s' = (rangeIDUnmatch s \<or> shardRowMismatch rg r) \<and>
     runIDUnmatch s' = (runIDUnmatch s \<or> currentRowMismatch ex r) \<and>
     nextEventIDUnmatch s' = (nextEventIDUnmatch s \<or> targetRowMismatch reqRun c r) \<and>
     allPrevious s' = allPrevious s"
  using assms
  by (auto simp: inspectRow_def wellFormedRow_def shardRowMismatch_def currentRowMismatch_def
      targetRowMismatch_def rowTypeShard_def rowTypeExecution_def split: option.splits)

lemma wellFormedRow_keys:
  "wellFormedRow r \<Longrightarrow> \<exists>t u. as_int r ''type'' = Some t \<and> as_uuid r ''run_id'' = Some u"
  by (auto simp: wellFormedRow_def split: option.splits)

text \<open>The loop invariant: over well-formed rows the loop never stops early, each flag is
  the disjunction over the rows scanned, and every row is recorded.\<close>

lemma loop_flags:
  assumes "reqRun \<noteq> permanentRunID"
  shows "list_all wellFormedRow (previous # iter) \<Longrightarrow>
    \<exists>s'. GetFailureReasonLoop previous iter reqRun c rg ex s = Returns s' \<and>
     rangeIDUnmatch s' = (rangeIDUnmatch s \<or> list_ex (shardRowMismatch rg) (previous # iter)) \<and>
     runIDUnmatch s' = (runIDUnmatch s \<or> list_ex (currentRowMismatch ex) (previous # iter)) \<and>
     nextEventIDUnmatch s' =
       (nextEventIDUnmatch s \<or> list_ex (targetRowMismatch reqRun c) (previous # iter)) \<and>
     allPrevious s' = allPrevious s @ previous # iter"
proof (induction iter arbitrary: previous s)
  case Nil
  then obtain t u where k: "as_int previous ''type'' = Some t" "as_uuid previous ''run_id'' = Some u"
    using wellFormedRow_keys by fastforce
  from Nil have wf: "wellFormedRow previous" by simp
  from inspectRow_flags [OF k wf assms, of c rg ex s] obtain s1 where
    "inspectRow previous t u reqRun c rg ex s = Returns s1"
    "rangeIDUnmatch s1 = (rangeIDUnmatch s \<or> shardRowMismatch rg previous)"
    "runIDUnmatch s1 = (runIDUnmatch s \<or> currentRowMismatch ex previous)"
    "nextEventIDUnmatch s1 = (nextEventIDUnmatch s \<or> targetRowMismatch reqRun c previous)"
    "allPrevious s1 = allPrevious s" by blast
  then show ?case using k by simp
next
  case (Cons nxt rest)
  then obtain t u where k: "as_int previous ''type'' = Some t" "as_uuid previous ''run_id'' = Some u"
    using wellFormedRow_keys by fastforce
  from Cons.prems have wf: "wellFormedRow previous" and wfr: "list_all wellFormedRow (nxt # rest)"
    by simp_all
  from inspectRow_flags [OF k wf assms, of c rg ex s] obtain s1 where s1:
    "inspectRow previous t u reqRun c rg ex s = Returns s1"
    "rangeIDUnmatch s1 = (rangeIDUnmatch s \<or> shardRowMismatch rg previous)"
    "runIDUnmatch s1 = (runIDUnmatch s \<or> currentRowMismatch ex previous)"
    "nextEventIDUnmatch s1 = (nextEventIDUnmatch s \<or> targetRowMismatch reqRun c previous)"
    "allPrevious s1 = allPrevious s" by blast
  from Cons.IH [OF wfr, of "s1\<lparr>allPrevious := allPrevious s1 @ [previous]\<rparr>"] obtain s2 where s2:
    "GetFailureReasonLoop nxt rest reqRun c rg ex
       (s1\<lparr>allPrevious := allPrevious s1 @ [previous]\<rparr>) = Returns s2"
    "rangeIDUnmatch s2 = (rangeIDUnmatch s1 \<or> list_ex (shardRowMismatch rg) (nxt # rest))"
    "runIDUnmatch s2 = (runIDUnmatch s1 \<or> list_ex (currentRowMismatch ex) (nxt # rest))"
    "nextEventIDUnmatch s2 =
       (nextEventIDUnmatch s1 \<or> list_ex (targetRowMismatch reqRun c) (nxt # rest))"
    "allPrevious s2 = allPrevious s1 @ [previous] @ nxt # rest" by auto
  show ?case using k s1 s2 by auto
qed

lemma verdictOf_failureOf:
  "verdictOf (failureOf shardID c rg ex s) =
    Some (if rangeIDUnmatch s then VerdictShardOwnershipLost
     else if runIDUnmatch s then VerdictCurrentWorkflowConditionFailed
     else if nextEventIDUnmatch s then VerdictConditionFailed
     else (case allPrevious s of [] \<Rightarrow> VerdictConditionFailed
           | _ \<Rightarrow> VerdictCatchAll (allPrevious s)))"
  by (simp add: failureOf_def split: list.splits)

lemma classifier_priority:
  assumes "list_all wellFormedRow (previous # iter)" "requestRunID \<noteq> permanentRunID"
  shows "\<exists>e. getExecutionConditionalUpdateFailure shardID previous iter requestRunID
            requestCondition requestRangeID expectedRunID = Returns e \<and>
          verdictOf e = Some (classifyByPriority (previous # iter) requestRunID requestCondition
            requestRangeID expectedRunID)"
proof -
  from loop_flags [OF assms(2) assms(1), of requestCondition requestRangeID expectedRunID scan0]
  obtain s' where s':
    "GetFailureReasonLoop previous iter requestRunID requestCondition requestRangeID
       expectedRunID scan0 = Returns s'"
    "rangeIDUnmatch s' = list_ex (shardRowMismatch requestRangeID) (previous # iter)"
    "runIDUnmatch s' = list_ex (currentRowMismatch expectedRunID) (previous # iter)"
    "nextEventIDUnmatch s' =
       list_ex (targetRowMismatch requestRunID requestCondition) (previous # iter)"
    "allPrevious s' = previous # iter"
    by (auto simp: scan0_def)
  show ?thesis
    unfolding getExecutionConditionalUpdateFailure_def classifyByPriority_def
    using s' by (simp add: verdictOf_failureOf)
qed

text \<open>The loop of the create path returns what its body decides on the first row on which
  the body decides, and falls back to \<^verbatim>\<open>ShardOwnershipLostError\<close> when it decides on none.\<close>

lemma createFailureReason_first:
  "list_all wellFormedRow (previous # iter) \<Longrightarrow>
   createFailureReason shardID request previous iter =
     (case List.find (\<lambda>r. createDecision shardID request r \<noteq> None) (previous # iter) of
        None \<Rightarrow> Returns (ShardOwnershipLostError shardID ([CBigint (RangeID request)], [[]]))
      | Some r \<Rightarrow>
         (case createDecision shardID request r of
            Some decided \<Rightarrow> decided
          | None \<Rightarrow> Returns (ShardOwnershipLostError shardID
                               ([CBigint (RangeID request)], [[]]))))"
proof (induction iter arbitrary: previous)
  case Nil
  then show ?case
    by (auto simp: createDecision_def wellFormedRow_def split: option.splits)
next
  case (Cons nxt rest)
  from Cons.prems have wf: "wellFormedRow previous" and wfr: "list_all wellFormedRow (nxt # rest)"
    by simp_all
  show ?case
  proof (cases "createDecision shardID request previous")
    case None
    with wf have "createFailureReason shardID request previous (nxt # rest) =
       createFailureReason shardID request nxt rest"
      by (auto simp: createDecision_def wellFormedRow_def split: option.splits)
    with None Cons.IH [OF wfr] show ?thesis by simp
  next
    case (Some d)
    with wf show ?thesis
      by (auto simp: createDecision_def wellFormedRow_def split: option.splits)
  qed
qed

text \<open>
  Claim C1, as the code has it. On the update and reset paths
  (\<^verbatim>\<open>getExecutionConditionalUpdateFailure\<close>), over well-formed returned rows and a target
  run other than the reserved permanent run id, the classifier scans every row and then
  classifies in the priority order of the specification: shard row with another range id,
  else marker row with another current run id, else target row with another next event
  id, else the catch-all \<^verbatim>\<open>ConditionFailedError\<close> that carries all returned rows. On the
  create path the loop instead returns at the first row on which its body decides, and its
  fallback is \<^verbatim>\<open>ShardOwnershipLostError\<close>.
\<close>

theorem C1_classifier_by_path:
  assumes "list_all wellFormedRow (previous # iter)" and "requestRunID \<noteq> permanentRunID"
  shows "(\<exists>e. getExecutionConditionalUpdateFailure shardID previous iter requestRunID
              requestCondition requestRangeID expectedRunID = Returns e \<and>
            verdictOf e = Some (classifyByPriority (previous # iter) requestRunID
              requestCondition requestRangeID expectedRunID)) \<and>
         createFailureReason shardID request previous iter =
           (case List.find (\<lambda>r. createDecision shardID request r \<noteq> None) (previous # iter) of
              None \<Rightarrow> Returns (ShardOwnershipLostError shardID
                                 ([CBigint (RangeID request)], [[]]))
            | Some r \<Rightarrow>
               (case createDecision shardID request r of
                  Some decided \<Rightarrow> decided
                | None \<Rightarrow> Returns (ShardOwnershipLostError shardID
                                     ([CBigint (RangeID request)], [[]]))))"
  using classifier_priority [OF assms] createFailureReason_first [OF assms(1)] by blast

theorem C1_classifier_by_path_witness:
  "list_all wellFormedRow [exampleCurrentRow ''run-9'', exampleShardRow 8] \<and>
   ''run-1'' \<noteq> permanentRunID \<and>
   (\<exists>e. getExecutionConditionalUpdateFailure 3 (exampleCurrentRow ''run-9'')
           [exampleShardRow 8] ''run-1'' 3 7 ''run-1'' = Returns e \<and>
         verdictOf e = Some VerdictShardOwnershipLost) \<and>
   createFailureReason 3 exampleCreateRequest (exampleCurrentRow ''run-9'') [exampleShardRow 8] =
     Returns (CurrentWorkflowConditionFailedError
       ([CText ''wf-1'', CText ''run-2''], [exampleCurrentRow ''run-9'']))"
proof -
  have wf: "list_all wellFormedRow [exampleCurrentRow ''run-9'', exampleShardRow 8]"
    by (simp add: wellFormedRow_def exampleCurrentRow_def exampleShardRow_def as_int_def
        as_uuid_def rowTypeExecution_def)
  have ne: "''run-1'' \<noteq> permanentRunID"
    by (simp add: permanentRunID_def)
  have cls: "classifyByPriority [exampleCurrentRow ''run-9'', exampleShardRow 8] ''run-1'' 3 7
      ''run-1'' = VerdictShardOwnershipLost"
    by (simp add: classifyByPriority_def shardRowMismatch_def exampleCurrentRow_def
        exampleShardRow_def as_int_def as_int64_def rowTypeShard_def)
  have dec: "createDecision 3 exampleCreateRequest (exampleCurrentRow ''run-9'') =
      Some (Returns (CurrentWorkflowConditionFailedError
        ([CText ''wf-1'', CText ''run-2''], [exampleCurrentRow ''run-9''])))"
    by (simp add: createDecision_def createInspectRow_def exampleCurrentRow_def
        exampleCreateRequest_def as_int_def as_uuid_def as_map_def rowTypeShard_def
        rowTypeExecution_def GetRunId_def GetWorkflowId_def)
  from C1_classifier_by_path [OF wf ne, of 3 3 7 "''run-1''" exampleCreateRequest]
  show ?thesis using wf ne cls dec by simp
qed

text \<open>Against C1 as stated: on the create path a single shard row whose range id equals the
  request's is classified \<^verbatim>\<open>ShardOwnershipLostError\<close>, where the priority order of the
  specification gives the catch-all.\<close>

theorem C1_create_path_counterexample:
  "createFailureReason 3 exampleCreateRequest (exampleShardRow 7) [] =
     Returns (ShardOwnershipLostError 3 ([CBigint 7], [[]])) \<and>
   RangeID exampleCreateRequest = 7 \<and>
   wellFormedRow (exampleShardRow 7) \<and>
   classifyByPriority [exampleShardRow 7] ''run-2'' 3 7 ''run-1'' =
     VerdictCatchAll [exampleShardRow 7]"
  by (simp add: exampleCreateRequest_def exampleShardRow_def createInspectRow_def as_int_def
      as_int64_def as_uuid_def rowTypeShard_def classifyByPriority_def shardRowMismatch_def
      currentRowMismatch_def targetRowMismatch_def rowTypeExecution_def wellFormedRow_def)

section \<open>Verification: the shard store\<close>

lemma shardKey_no_shard: "as_map (shardKey sid @ r) ''shard'' = as_map r ''shard''"
  by (simp add: as_map_def shardKey_def executionsKey_def)

text \<open>
  Claim C5, as the code has it. When the store answers the insert as its lightweight
  transaction on table \<open>t\<close>: with no row under the shard's key the call succeeds and the
  row is inserted; with a row there the table is left as it is, and the call fails with
  \<^verbatim>\<open>ShardAlreadyExistError\<close>, whose message carries the shard id and the range id of the
  blocking row's \<open>shard\<close> column (not its owner).
\<close>

theorem C5_create_shard:
  assumes "MapScanCAS d (templateCreateShardQuery (shardKey (si_ShardID shardInfo))
             (templateShardType shardInfo now) (si_RangeID shardInfo)) =
           fst (lwt (templateCreateShardQuery (shardKey (si_ShardID shardInfo))
             (templateShardType shardInfo now) (si_RangeID shardInfo)) t)"
  shows "(t (shardKey (si_ShardID shardInfo)) = None \<longrightarrow>
           snd (CreateShard d now shardInfo) = Done () \<and>
           snd (lwt (templateCreateShardQuery (shardKey (si_ShardID shardInfo))
             (templateShardType shardInfo now) (si_RangeID shardInfo)) t) =
             t(shardKey (si_ShardID shardInfo) \<mapsto>
                 [(''shard'', templateShardType shardInfo now),
                  (''range_id'', CBigint (si_RangeID shardInfo))])) \<and>
         (\<forall>r. t (shardKey (si_ShardID shardInfo)) = Some r \<longrightarrow>
           snd (CreateShard d now shardInfo) \<noteq> Done () \<and>
           snd (lwt (templateCreateShardQuery (shardKey (si_ShardID shardInfo))
             (templateShardType shardInfo now) (si_RangeID shardInfo)) t) = t) \<and>
         (\<forall>r shard. t (shardKey (si_ShardID shardInfo)) = Some r \<and>
             as_map r ''shard'' = Some shard \<longrightarrow>
           snd (CreateShard d now shardInfo) =
             Failed (ShardAlreadyExistError
               ([case map_of shard ''shard_id'' of Some v \<Rightarrow> v | None \<Rightarrow> CNull,
                 case map_of shard ''range_id'' of Some v \<Rightarrow> v | None \<Rightarrow> CNull], [])))"
  using assms
  by (auto simp: CreateShard_def templateCreateShardQuery_def Let_def shardKey_no_shard
      split: option.splits)

theorem C5_create_shard_witness:
  "MapScanCAS (tableSession (exampleShardTable ''host-A'' 5))
     (templateCreateShardQuery (shardKey (si_ShardID (exampleShardInfo ''host-C'' 1)))
        (templateShardType (exampleShardInfo ''host-C'' 1) 0)
        (si_RangeID (exampleShardInfo ''host-C'' 1))) =
   fst (lwt (templateCreateShardQuery (shardKey (si_ShardID (exampleShardInfo ''host-C'' 1)))
        (templateShardType (exampleShardInfo ''host-C'' 1) 0)
        (si_RangeID (exampleShardInfo ''host-C'' 1))) (exampleShardTable ''host-A'' 5)) \<and>
   exampleShardTable ''host-A'' 5 (shardKey 3) \<noteq> None \<and>
   snd (CreateShard (tableSession (exampleShardTable ''host-A'' 5)) 0
          (exampleShardInfo ''host-C'' 1)) =
     Failed (ShardAlreadyExistError ([CInt 3, CBigint 5], []))"
proof -
  have h: "MapScanCAS (tableSession (exampleShardTable ''host-A'' 5))
     (templateCreateShardQuery (shardKey (si_ShardID (exampleShardInfo ''host-C'' 1)))
        (templateShardType (exampleShardInfo ''host-C'' 1) 0)
        (si_RangeID (exampleShardInfo ''host-C'' 1))) =
   fst (lwt (templateCreateShardQuery (shardKey (si_ShardID (exampleShardInfo ''host-C'' 1)))
        (templateShardType (exampleShardInfo ''host-C'' 1) 0)
        (si_RangeID (exampleShardInfo ''host-C'' 1))) (exampleShardTable ''host-A'' 5))"
    by (simp add: tableSession_def)
  have sid: "si_ShardID (exampleShardInfo ''host-C'' 1) = 3"
    by (simp add: exampleShardInfo_def)
  have row: "exampleShardTable ''host-A'' 5 (shardKey 3) =
      Some [(''shard'', templateShardType (exampleShardInfo ''host-A'' 5) 0),
            (''range_id'', CBigint 5)]"
    by (simp add: exampleShardTable_def)
  have udt: "as_map [(''shard'', templateShardType (exampleShardInfo ''host-A'' 5) 0),
                     (''range_id'', CBigint 5)] ''shard'' =
      Some [(''shard_id'', CInt 3), (''owner'', CText ''host-A''), (''range_id'', CBigint 5),
            (''stolen_since_renew'', CInt 0), (''updated_at'', CBigint 0),
            (''replication_ack_level'', CBigint 0), (''transfer_ack_level'', CBigint 0),
            (''timer_ack_level'', CNull), (''cluster_transfer_ack_level'', CNull),
            (''cluster_timer_ack_level'', CNull), (''domain_notification_version'', CBigint 0)]"
    by (simp add: as_map_def templateShardType_def exampleShardInfo_def)
  from C5_create_shard [OF h] sid row udt show ?thesis
    using h by simp
qed

text \<open>Against C5 as stated: two blocking rows that differ in their owner only give the
  same error, so the error does not expose the owner.\<close>

theorem C5_owner_counterexample:
  "snd (CreateShard (tableSession (exampleShardTable ''host-A'' 5)) 0
          (exampleShardInfo ''host-C'' 1)) =
     Failed (ShardAlreadyExistError ([CInt 3, CBigint 5], [])) \<and>
   snd (CreateShard (tableSession (exampleShardTable ''host-B'' 5)) 0
          (exampleShardInfo ''host-C'' 1)) =
     Failed (ShardAlreadyExistError ([CInt 3, CBigint 5], [])) \<and>
   exampleShardTable ''host-A'' 5 (shardKey 3) \<noteq> exampleShardTable ''host-B'' 5 (shardKey 3)"
  by (simp add: CreateShard_def tableSession_def exampleShardTable_def exampleShardInfo_def
      templateCreateShardQuery_def templateShardType_def as_map_def shardKey_def
      executionsKey_def)

section \<open>Verification: driver errors on a submitted batch\<close>

lemma executeAndClassify_timeout:
  assumes "Batched b \<in> set (fst (executeAndClassify d shardID events batch rg r c cr))"
    "\<forall>b'. Batched b' \<notin> set events"
    "MapExecuteBatchCAS d b = BatchError err" "isTimeoutError err"
  shows "snd (executeAndClassify d shardID events batch rg r c cr) = Failed TimeoutError"
  using assms by (auto simp: executeAndClassify_def Let_def batchFailure_def)

lemma create_timeout:
  assumes "Batched b \<in> set (fst (CreateWorkflowExecution d x shardID now request))"
    "MapExecuteBatchCAS d b = BatchError err" "isTimeoutError err"
  shows "snd (CreateWorkflowExecution d x shardID now request) = Failed TimeoutError"
  using assms
  by (auto simp: CreateWorkflowExecution_def Let_def batchFailure_def
      split: option.splits result.splits if_splits prod.splits)

lemma update_timeout:
  assumes "Batched b \<in> set (fst (UpdateWorkflowExecution d x shardID now request))"
    "MapExecuteBatchCAS d b = BatchError err" "isTimeoutError err"
  shows "snd (UpdateWorkflowExecution d x shardID now request) = Failed TimeoutError"
  using assms
  by (auto simp: UpdateWorkflowExecution_def Let_def
      split: option.splits result.splits if_splits prod.splits sum.splits WorkflowState.splits
      dest!: executeAndClassify_timeout)

lemma reset_timeout:
  assumes "Batched b \<in> set (fst (ResetWorkflowExecution d x shardID now request))"
    "MapExecuteBatchCAS d b = BatchError err" "isTimeoutError err"
  shows "snd (ResetWorkflowExecution d x shardID now request) = Failed TimeoutError"
  using assms
  by (auto simp: ResetWorkflowExecution_def Let_def
      split: option.splits result.splits if_splits prod.splits sum.splits
      dest!: executeAndClassify_timeout)

text \<open>
  Claim C3. When the store answers the batch that \<^verbatim>\<open>CreateWorkflowExecution\<close>,
  \<^verbatim>\<open>UpdateWorkflowExecution\<close> or \<^verbatim>\<open>ResetWorkflowExecution\<close> has submitted with an error that
  \<^verbatim>\<open>isTimeoutError\<close> recognises, the operation returns \<^verbatim>\<open>TimeoutError\<close>: neither the
  generic \<^verbatim>\<open>InternalServiceError\<close> nor success.
\<close>

theorem C3_timeout_is_ambiguous:
  assumes "MapExecuteBatchCAS d b = BatchError err" and "isTimeoutError err"
  shows "(Batched b \<in> set (fst (CreateWorkflowExecution d x shardID now createRequest)) \<longrightarrow>
            snd (CreateWorkflowExecution d x shardID now createRequest) = Failed TimeoutError) \<and>
         (Batched b \<in> set (fst (UpdateWorkflowExecution d x shardID now updateRequest)) \<longrightarrow>
            snd (UpdateWorkflowExecution d x shardID now updateRequest) = Failed TimeoutError) \<and>
         (Batched b \<in> set (fst (ResetWorkflowExecution d x shardID now resetRequest)) \<longrightarrow>
            snd (ResetWorkflowExecution d x shardID now resetRequest) = Failed TimeoutError)"
  using create_timeout [OF _ assms] update_timeout [OF _ assms] reset_timeout [OF _ assms]
  by blast

lemma example_create_events:
  "\<exists>b. fst (CreateWorkflowExecution (batchSession reply) exampleExternals 3 0
        exampleCreateRequest) = [Batched b]"
  by (simp add: CreateWorkflowExecution_def CreateWorkflowExecutionWithinBatch_def
      exampleExternals_def exampleCreateRequest_def createModeStatements_def
      createExecutionStatement_def Let_def)

theorem C3_timeout_is_ambiguous_witness:
  "isTimeoutError exampleTimeout \<and>
   (\<exists>b. MapExecuteBatchCAS (batchSession (BatchError exampleTimeout)) b = BatchError exampleTimeout \<and>
        Batched b \<in> set (fst (CreateWorkflowExecution (batchSession (BatchError exampleTimeout))
          exampleExternals 3 0 exampleCreateRequest))) \<and>
   snd (CreateWorkflowExecution (batchSession (BatchError exampleTimeout)) exampleExternals 3 0
          exampleCreateRequest) = Failed TimeoutError"
proof -
  obtain b where b: "fst (CreateWorkflowExecution (batchSession (BatchError exampleTimeout))
      exampleExternals 3 0 exampleCreateRequest) = [Batched b]"
    using example_create_events by blast
  have r: "MapExecuteBatchCAS (batchSession (BatchError exampleTimeout)) b = BatchError exampleTimeout"
    by (simp add: batchSession_def)
  have t: "isTimeoutError exampleTimeout"
    by (simp add: exampleTimeout_def)
  from C3_timeout_is_ambiguous [OF r t, of exampleExternals 3 0 exampleCreateRequest] b r t
  show ?thesis by auto
qed

section \<open>Verification: reading a task list\<close>

lemma PopulateTasks_bound:
  "0 < n \<Longrightarrow> int (length tasks) < n \<Longrightarrow> PopulateTasks rows n tasks = Returns ts \<Longrightarrow>
   int (length ts) \<le> n"
proof (induction rows arbitrary: tasks)
  case Nil
  then show ?case by simp
next
  case (Cons task rest)
  show ?case
  proof (cases "map_of task ''task_id''")
    case None
    with Cons show ?thesis by simp
  next
    case (Some taskID)
    with Cons.prems obtain t i where t: "as_map task ''task'' = Some t" and i: "taskID = CBigint i"
      by (auto split: option.splits cval.splits)
    show ?thesis
    proof (cases "int (length (tasks @ [(i, t)])) = n")
      case True
      with Cons.prems Some t i show ?thesis by auto
    next
      case False
      with Cons.prems Some t i have
        "PopulateTasks rest n (tasks @ [(i, t)]) = Returns ts" by simp
      moreover from False Cons.prems(2) have "int (length (tasks @ [(i, t)])) < n" by simp
      ultimately show ?thesis using Cons.IH [OF Cons.prems(1)] by blast
    qed
  qed
qed

text \<open>
  Claim C10, as the code has it. Without a maximum read level \<^verbatim>\<open>GetTasks\<close> fails with
  \<^verbatim>\<open>InternalServiceError\<close>, and with a read level above the maximum it answers the empty
  response; in both cases nothing is sent to the store. A successful response holds at
  most \<open>BatchSize\<close> tasks when the batch size is positive.
\<close>

theorem C10_get_tasks:
  "(gt_MaxReadLevel request = None \<longrightarrow>
      GetTasks d request = ([], Failed InternalServiceError)) \<and>
   (\<forall>maxReadLevel. gt_MaxReadLevel request = Some maxReadLevel \<and>
        sint maxReadLevel < sint (gt_ReadLevel request) \<longrightarrow>
      GetTasks d request = ([], Done [])) \<and>
   (\<forall>tasks. snd (GetTasks d request) = Done tasks \<and> 0 < gt_BatchSize request \<longrightarrow>
      int (length tasks) \<le> gt_BatchSize request)"
proof (intro conjI allI impI)
  show "GetTasks d request = ([], Failed InternalServiceError)" if "gt_MaxReadLevel request = None"
    using that by (simp add: GetTasks_def)
  show "GetTasks d request = ([], Done [])"
    if "gt_MaxReadLevel request = Some m \<and> sint m < sint (gt_ReadLevel request)" for m
    using that by (simp add: GetTasks_def)
  show "int (length tasks) \<le> gt_BatchSize request"
    if h: "snd (GetTasks d request) = Done tasks \<and> 0 < gt_BatchSize request" for tasks
  proof -
    from h have pos: "0 < gt_BatchSize request" by simp
    from h consider "tasks = []" |
      rows where "PopulateTasks rows (gt_BatchSize request) [] = Returns tasks"
      by (auto simp: GetTasks_def Let_def
          split: option.splits if_splits iter_reply.splits go.splits)
    then show ?thesis
    proof cases
      case 1
      with pos show ?thesis by simp
    next
      case 2
      from PopulateTasks_bound [OF pos _ 2] pos show ?thesis by simp
    qed
  qed
qed

theorem C10_get_tasks_witness:
  "GetTasks (iterSession [exampleTaskRow 1, exampleTaskRow 2, exampleTaskRow 3])
     (exampleGetTasksRequest 5 (Some 3) 2) = ([], Done []) \<and>
   GetTasks (iterSession [exampleTaskRow 1]) (exampleGetTasksRequest 0 None 2) =
     ([], Failed InternalServiceError) \<and>
   (\<exists>tasks. snd (GetTasks (iterSession [exampleTaskRow 1, exampleTaskRow 2, exampleTaskRow 3])
        (exampleGetTasksRequest 0 (Some 3) 2)) = Done tasks \<and> length tasks = 2)"
proof -
  have a: "gt_MaxReadLevel (exampleGetTasksRequest 5 (Some 3) 2) = Some 3 \<and>
      sint (3 :: int64) < sint (gt_ReadLevel (exampleGetTasksRequest 5 (Some 3) 2))"
    by (simp add: exampleGetTasksRequest_def)
  have b: "gt_MaxReadLevel (exampleGetTasksRequest 0 None 2) = None"
    by (simp add: exampleGetTasksRequest_def)
  have c: "snd (GetTasks (iterSession [exampleTaskRow 1, exampleTaskRow 2, exampleTaskRow 3])
        (exampleGetTasksRequest 0 (Some 3) 2)) =
      Done [(1, [(''workflow_id'', CText ''wf-1''), (''schedule_id'', CBigint 5)]),
            (2, [(''workflow_id'', CText ''wf-1''), (''schedule_id'', CBigint 5)])]"
    by (simp add: GetTasks_def exampleGetTasksRequest_def iterSession_def exampleTaskRow_def
        as_map_def Let_def)
  from C10_get_tasks [of "exampleGetTasksRequest 5 (Some 3) 2"
      "iterSession [exampleTaskRow 1, exampleTaskRow 2, exampleTaskRow 3]"]
    C10_get_tasks [of "exampleGetTasksRequest 0 None 2" "iterSession [exampleTaskRow 1]"]
    a b c
  show ?thesis by auto
qed

text \<open>Against C10 as stated: with batch size 0 the loop never meets its stop test, and
  two tasks come back.\<close>

theorem C10_batch_size_counterexample:
  "snd (GetTasks (iterSession [exampleTaskRow 1, exampleTaskRow 2])
          (exampleGetTasksRequest 0 (Some 3) 0)) =
     Done [(1, [(''workflow_id'', CText ''wf-1''), (''schedule_id'', CBigint 5)]),
           (2, [(''workflow_id'', CText ''wf-1''), (''schedule_id'', CBigint 5)])] \<and>
   gt_BatchSize (exampleGetTasksRequest 0 (Some 3) 0) = 0"
  by (simp add: GetTasks_def exampleGetTasksRequest_def iterSession_def exampleTaskRow_def
      as_map_def Let_def)

section \<open>Verification: completing tasks below a level\<close>

text \<open>
  Claim C8. A successful \<^verbatim>\<open>CompleteTasksLessThan\<close> answers the sentinel
  \<^verbatim>\<open>p.UnknownNumRowsAffected\<close> whatever the store has deleted, so a negative sentinel is
  never zero nor a count; a failed one answers \<^verbatim>\<open>ServiceBusyError\<close> or
  \<^verbatim>\<open>InternalServiceError\<close>.
\<close>

theorem C8_unknown_rows_affected:
  "(Exec d (templateCompleteTasksLessThanQuery (ct_DomainID request) (ct_TaskListName request)
             (ct_TaskType request) rowTypeTask (ct_TaskID request)) = None \<longrightarrow>
      snd (CompleteTasksLessThan d x request) = (UnknownNumRowsAffected x, None)) \<and>
   (\<forall>n. snd (CompleteTasksLessThan d x request) = (n, None) \<longrightarrow>
      n = UnknownNumRowsAffected x \<and> (UnknownNumRowsAffected x < 0 \<longrightarrow> n \<noteq> 0 \<and> \<not> 0 \<le> n)) \<and>
   (\<forall>n err. snd (CompleteTasksLessThan d x request) = (n, Some err) \<longrightarrow>
      kindOf err = Busy \<or> kindOf err = Internal)"
proof (cases "Exec d (templateCompleteTasksLessThanQuery (ct_DomainID request)
    (ct_TaskListName request) (ct_TaskType request) rowTypeTask (ct_TaskID request))")
  case None
  then have "snd (CompleteTasksLessThan d x request) = (UnknownNumRowsAffected x, None)"
    by (simp add: CompleteTasksLessThan_def Let_def)
  with None show ?thesis by simp
next
  case (Some err)
  then have "snd (CompleteTasksLessThan d x request) =
      (0, Some (if isThrottlingError err then ServiceBusyError else InternalServiceError))"
    by (simp add: CompleteTasksLessThan_def Let_def)
  with Some show ?thesis by simp
qed

theorem C8_unknown_rows_affected_witness:
  "Exec (execSession None)
     (templateCompleteTasksLessThanQuery (ct_DomainID exampleCompleteRequest)
        (ct_TaskListName exampleCompleteRequest) (ct_TaskType exampleCompleteRequest)
        rowTypeTask (ct_TaskID exampleCompleteRequest)) = None \<and>
   UnknownNumRowsAffected exampleExternals < 0 \<and>
   snd (CompleteTasksLessThan (execSession None) exampleExternals exampleCompleteRequest) =
     (- 1, None)"
proof -
  have a: "Exec (execSession None)
     (templateCompleteTasksLessThanQuery (ct_DomainID exampleCompleteRequest)
        (ct_TaskListName exampleCompleteRequest) (ct_TaskType exampleCompleteRequest)
        rowTypeTask (ct_TaskID exampleCompleteRequest)) = None"
    by (simp add: execSession_def)
  have b: "UnknownNumRowsAffected exampleExternals = - 1"
    by (simp add: exampleExternals_def)
  from C8_unknown_rows_affected [of "execSession None" exampleCompleteRequest exampleExternals]
    a
  have "snd (CompleteTasksLessThan (execSession None) exampleExternals exampleCompleteRequest) =
      (UnknownNumRowsAffected exampleExternals, None)" by blast
  with a b show ?thesis by simp
qed

section \<open>Verification: workflow id reuse without replication state\<close>

lemma reuse_is_continue:
  assumes "CreateWorkflowMode request = CreateWorkflowModeWorkflowIDReuse"
    and "ReplicationState request = None"
  shows "CreateWorkflowExecutionWithinBatch x shardID request batch =
         CreateWorkflowExecutionWithinBatch x shardID
           (request\<lparr>CreateWorkflowMode := CreateWorkflowModeContinueAsNew\<rparr>) batch"
  using assms by (simp add: CreateWorkflowExecutionWithinBatch_def Let_def split: option.splits)

lemma continue_pointer:
  assumes "CreateWorkflowMode request = CreateWorkflowModeContinueAsNew"
  shows "createModeStatements shardID request startVersion lastWriteVersion =
     (case WorkflowId (Execution request) of
        None \<Rightarrow> Panicked
      | Some workflowId \<Rightarrow>
          Done [Update ''executions'' (pointerKey shardID (DomainID request) workflowId)
                  (currentExecutionColumns (GetRunId (Execution request))
                     (GetRunId (Execution request)) (RequestID request) (State request)
                     (CloseStatus request) startVersion lastWriteVersion lastWriteVersion
                     (State request))
                  (IfEquals [(''current_run_id'', CUUID (PreviousRunID request))])])"
  using assms
  by (simp add: createModeStatements_def templateUpdateCurrentWorkflowExecutionQuery_def
      split: option.splits)

lemma continue_shape:
  assumes "CreateWorkflowMode request = CreateWorkflowModeContinueAsNew"
    and "ReplicationState request = None"
    and "CreateWorkflowExecutionWithinBatch x shardID request batch = Done (batch', request')"
  shows "request' = request \<and>
     (\<exists>workflowId columns execution.
        WorkflowId (Execution request) = Some workflowId \<and>
        batch' = batch @
          [Update ''executions'' (pointerKey shardID (DomainID request) workflowId) columns
             (IfEquals [(''current_run_id'', CUUID (PreviousRunID request))]),
           execution])"
proof -
  from assms(1,2) have r: "(if ReplicationState request = None \<and>
        CreateWorkflowMode request = CreateWorkflowModeWorkflowIDReuse
      then request\<lparr>CreateWorkflowMode := CreateWorkflowModeContinueAsNew\<rparr> else request) = request"
    by simp
  from assms(3) show ?thesis
    unfolding CreateWorkflowExecutionWithinBatch_def Let_def r continue_pointer [OF assms(1)]
    by (auto split: option.splits result.splits)
qed

lemma execution_statement_done:
  assumes "ReplicationState request = None"
    and "VersionHistories request = None \<or>
         (WorkflowId (Execution request) \<noteq> None \<and> RunId (Execution request) \<noteq> None)"
  shows "\<exists>s. createExecutionStatement shardID request = Done s"
  using assms
  by (auto simp: createExecutionStatement_def Let_def split: option.splits)

lemma continue_done:
  assumes "CreateWorkflowMode request = CreateWorkflowModeContinueAsNew"
    and "ReplicationState request = None"
    and "ValidateCreateWorkflowStateCloseStatus x (State request) (CloseStatus request) = None"
    and "WorkflowId (Execution request) = Some workflowId"
    and "VersionHistories request = None \<or> RunId (Execution request) \<noteq> None"
  shows "\<exists>batch' request'.
     CreateWorkflowExecutionWithinBatch x shardID request batch = Done (batch', request')"
proof -
  from assms(1,2) have r: "(if ReplicationState request = None \<and>
        CreateWorkflowMode request = CreateWorkflowModeWorkflowIDReuse
      then request\<lparr>CreateWorkflowMode := CreateWorkflowModeContinueAsNew\<rparr> else request) = request"
    by simp
  from assms(2,4,5) obtain s where s: "createExecutionStatement shardID request = Done s"
    using execution_statement_done [of request shardID] by auto
  show ?thesis
    unfolding CreateWorkflowExecutionWithinBatch_def Let_def r continue_pointer [OF assms(1)]
    using assms(3,4) s by simp
qed

text \<open>
  Claim C9. A request in mode \<^verbatim>\<open>WorkflowIDReuse\<close> without replication state is built
  exactly as the same request in mode \<^verbatim>\<open>ContinueAsNew\<close>: with the validator satisfied and
  the ids present it succeeds, the statement on the current-execution row is conditioned
  on the previous run id alone, and the request comes back with its mode rewritten.
\<close>

theorem C9_reuse_without_replication:
  assumes "CreateWorkflowMode request = CreateWorkflowModeWorkflowIDReuse"
    and "ReplicationState request = None"
  shows "CreateWorkflowExecutionWithinBatch x shardID request batch =
           CreateWorkflowExecutionWithinBatch x shardID
             (request\<lparr>CreateWorkflowMode := CreateWorkflowModeContinueAsNew\<rparr>) batch \<and>
         (ValidateCreateWorkflowStateCloseStatus x (State request) (CloseStatus request) = None \<and>
          WorkflowId (Execution request) \<noteq> None \<and>
          (VersionHistories request = None \<or> RunId (Execution request) \<noteq> None) \<longrightarrow>
            (\<exists>batch' request'.
               CreateWorkflowExecutionWithinBatch x shardID request batch =
                 Done (batch', request'))) \<and>
         (\<forall>batch' request'.
            CreateWorkflowExecutionWithinBatch x shardID request batch = Done (batch', request') \<longrightarrow>
              request' = request\<lparr>CreateWorkflowMode := CreateWorkflowModeContinueAsNew\<rparr> \<and>
              (\<exists>workflowId columns execution.
                 WorkflowId (Execution request) = Some workflowId \<and>
                 batch' = batch @
                   [Update ''executions'' (pointerKey shardID (DomainID request) workflowId)
                      columns (IfEquals [(''current_run_id'', CUUID (PreviousRunID request))]),
                    execution]))"
proof (intro conjI allI impI)
  let ?c = "request\<lparr>CreateWorkflowMode := CreateWorkflowModeContinueAsNew\<rparr>"
  show eq: "CreateWorkflowExecutionWithinBatch x shardID request batch =
      CreateWorkflowExecutionWithinBatch x shardID ?c batch"
    by (rule reuse_is_continue [OF assms])
  show "\<exists>batch' request'.
      CreateWorkflowExecutionWithinBatch x shardID request batch = Done (batch', request')"
    if "ValidateCreateWorkflowStateCloseStatus x (State request) (CloseStatus request) = None \<and>
        WorkflowId (Execution request) \<noteq> None \<and>
        (VersionHistories request = None \<or> RunId (Execution request) \<noteq> None)"
  proof -
    from that obtain w where "WorkflowId (Execution ?c) = Some w" by auto
    with that continue_done [of ?c x w shardID batch] assms(2) eq show ?thesis by simp
  qed
  show "request' = ?c" and
    "\<exists>workflowId columns execution.
       WorkflowId (Execution request) = Some workflowId \<and>
       batch' = batch @
         [Update ''executions'' (pointerKey shardID (DomainID request) workflowId) columns
            (IfEquals [(''current_run_id'', CUUID (PreviousRunID request))]), execution]"
    if "CreateWorkflowExecutionWithinBatch x shardID request batch = Done (batch', request')"
    for batch' request'
    using continue_shape [of ?c x shardID batch batch' request'] assms(2) eq that by simp_all
qed

theorem C9_reuse_without_replication_witness:
  "CreateWorkflowMode exampleReuseRequest = CreateWorkflowModeWorkflowIDReuse \<and>
   ReplicationState exampleReuseRequest = None \<and>
   (\<exists>columns execution.
      CreateWorkflowExecutionWithinBatch exampleExternals 3 exampleReuseRequest [] =
        Done ([Update ''executions'' (pointerKey 3 ''domain-1'' ''wf-1'') columns
                 (IfEquals [(''current_run_id'', CUUID ''run-1'')]), execution],
              exampleCreateRequest))"
proof -
  have m: "CreateWorkflowMode exampleReuseRequest = CreateWorkflowModeWorkflowIDReuse"
    and r: "ReplicationState exampleReuseRequest = None"
    by (simp_all add: exampleReuseRequest_def exampleCreateRequest_def)
  have v: "ValidateCreateWorkflowStateCloseStatus exampleExternals (State exampleReuseRequest)
       (CloseStatus exampleReuseRequest) = None \<and>
     WorkflowId (Execution exampleReuseRequest) \<noteq> None \<and>
     (VersionHistories exampleReuseRequest = None \<or> RunId (Execution exampleReuseRequest) \<noteq> None)"
    by (simp add: exampleReuseRequest_def exampleCreateRequest_def exampleExternals_def)
  have c: "exampleReuseRequest\<lparr>CreateWorkflowMode := CreateWorkflowModeContinueAsNew\<rparr> =
      exampleCreateRequest"
    by (simp add: exampleReuseRequest_def exampleCreateRequest_def)
  have f: "WorkflowId (Execution exampleReuseRequest) = Some ''wf-1''"
    "DomainID exampleReuseRequest = ''domain-1''" "PreviousRunID exampleReuseRequest = ''run-1''"
    by (simp_all add: exampleReuseRequest_def exampleCreateRequest_def)
  note inst = C9_reuse_without_replication [OF m r, of exampleExternals 3 "[]"]
  from inst v obtain batch' request' where
    d: "CreateWorkflowExecutionWithinBatch exampleExternals 3 exampleReuseRequest [] =
          Done (batch', request')"
    by blast
  from inst d have rq: "request' = exampleCreateRequest"
    unfolding c by blast
  from inst d obtain workflowId columns execution where
    w: "WorkflowId (Execution exampleReuseRequest) = Some workflowId" and
    b: "batch' = [] @
          [Update ''executions'' (pointerKey 3 (DomainID exampleReuseRequest) workflowId) columns
             (IfEquals [(''current_run_id'', CUUID (PreviousRunID exampleReuseRequest))]),
           execution]"
    by blast
  from w f have "workflowId = ''wf-1''" by simp
  with b f have "batch' =
      [Update ''executions'' (pointerKey 3 ''domain-1'' ''wf-1'') columns
         (IfEquals [(''current_run_id'', CUUID ''run-1'')]), execution]"
    by simp
  with d rq have "\<exists>columns execution.
      CreateWorkflowExecutionWithinBatch exampleExternals 3 exampleReuseRequest [] =
        Done ([Update ''executions'' (pointerKey 3 ''domain-1'' ''wf-1'') columns
                 (IfEquals [(''current_run_id'', CUUID ''run-1'')]), execution],
              exampleCreateRequest)"
    by blast
  with m r show ?thesis by blast
qed

section \<open>Verification: leasing a task list\<close>

lemma lease_fresh:
  assumes "lt_TaskList request \<noteq> []"
    and "Scan d (templateGetTaskList (taskListKey request)) = ScanError err"
    and "isErrNotFound err"
  shows "fst (LeaseTaskList d now request) =
           [Queried (templateGetTaskList (taskListKey request)),
            Queried (templateInsertTaskListQuery (taskListKey request) initialRangeID
              (templateTaskListType (lt_DomainID request) (lt_TaskList request)
                 (lt_TaskType request) 0 (lt_TaskListKind request) now))]"
    and "MapScanCAS d (templateInsertTaskListQuery (taskListKey request) initialRangeID
              (templateTaskListType (lt_DomainID request) (lt_TaskList request)
                 (lt_TaskType request) 0 (lt_TaskListKind request) now)) = CasReply True prev \<Longrightarrow>
         \<exists>info. snd (LeaseTaskList d now request) = Done info \<and> tli_RangeID info = 1"
  using assms by (simp_all add: LeaseTaskList_def leaseWrite_def Let_def)

lemma lease_renew_mismatch:
  assumes "lt_TaskList request \<noteq> []"
    and "Scan d (templateGetTaskList (taskListKey request)) = ScanRow rangeID tlDB"
    and "0 < sint (lt_RangeID request)" and "lt_RangeID request \<noteq> rangeID"
  shows "fst (LeaseTaskList d now request) = [Queried (templateGetTaskList (taskListKey request))]"
    and "\<exists>m. snd (LeaseTaskList d now request) = Failed (ConditionFailedError m)"
  using assms by (simp_all add: LeaseTaskList_def Let_def)

lemma lease_increment:
  assumes "lt_TaskList request \<noteq> []"
    and "Scan d (templateGetTaskList (taskListKey request)) = ScanRow rangeID tlDB"
    and "\<not> (0 < sint (lt_RangeID request) \<and> lt_RangeID request \<noteq> rangeID)"
    and "as_int64 tlDB ''ack_level'' = Some ackLevel" and "as_int tlDB ''kind'' = Some taskListKind"
  shows "fst (LeaseTaskList d now request) =
           [Queried (templateGetTaskList (taskListKey request)),
            Queried (templateUpdateTaskListQuery (rangeID + 1)
              (templateTaskListType (lt_DomainID request) (lt_TaskList request)
                 (lt_TaskType request) ackLevel taskListKind now)
              (taskListKey request) rangeID)]"
    and "MapScanCAS d (templateUpdateTaskListQuery (rangeID + 1)
              (templateTaskListType (lt_DomainID request) (lt_TaskList request)
                 (lt_TaskType request) ackLevel taskListKind now)
              (taskListKey request) rangeID) = CasReply True prev \<Longrightarrow>
         \<exists>info. snd (LeaseTaskList d now request) = Done info \<and> tli_RangeID info = rangeID + 1"
  using assms by (auto simp add: LeaseTaskList_def leaseWrite_def Let_def)

lemma insert_task_list_lwt:
  "t key = None \<Longrightarrow>
   lwt (templateInsertTaskListQuery key initialRangeID taskList) t =
     (CasReply True [], t(key \<mapsto> [(''range_id'', CBigint 1), (''task_list'', taskList)]))"
  by (simp add: templateInsertTaskListQuery_def initialRangeID_def)

lemma update_task_list_lwt:
  assumes "t key = Some r"
  shows "(map_of r ''range_id'' = Some (CBigint rangeID) \<longrightarrow>
            fst (lwt (templateUpdateTaskListQuery (rangeID + 1) taskList key rangeID) t) =
              CasReply True [] \<and>
            (\<exists>r'. snd (lwt (templateUpdateTaskListQuery (rangeID + 1) taskList key rangeID) t) =
                    t(key \<mapsto> r') \<and>
                  map_of r' ''range_id'' = Some (CBigint (rangeID + 1)))) \<and>
         (map_of r ''range_id'' \<noteq> Some (CBigint rangeID) \<longrightarrow>
            snd (lwt (templateUpdateTaskListQuery (rangeID + 1) taskList key rangeID) t) = t \<and>
            (\<exists>prev. fst (lwt (templateUpdateTaskListQuery (rangeID + 1) taskList key rangeID) t) =
               CasReply False prev))"
  using assms
  by (auto simp: templateUpdateTaskListQuery_def holds_def update_conv)

lemma int64_succ:
  assumes "sint (rangeID :: int64) < 2 ^ 63 - 1"
  shows "sint (rangeID + 1) = sint rangeID + 1"
proof -
  have lo: "- (2 ^ 63) \<le> sint rangeID"
    using sint_ge [of rangeID] by simp
  have "sint (rangeID + 1) = signed_take_bit 63 (sint rangeID + sint (1 :: int64))"
    by (simp add: sint_word_ariths)
  also have "\<dots> = signed_take_bit 63 (sint rangeID + 1)" by simp
  also have "\<dots> = sint rangeID + 1"
    by (rule signed_take_bit_int_eq_self) (use lo assms in simp_all)
  finally show ?thesis .
qed

text \<open>
  Claim C7. For a request with a non-empty list name. (1) When the read finds no row, the
  write sent is the insert of a row with the initial range id, applied by the store
  exactly on a free key, and an applied insert is answered with range id 1. (2) When a row
  is read and the caller's range id is positive and differs from the one read, the call
  fails with \<^verbatim>\<open>ConditionFailedError\<close> and only the read has been sent. (3) Otherwise the
  write sent sets the range id to the one read plus one under the condition that the
  stored one is still the one read; the store applies it exactly then, and an applied
  write is answered with the range id read plus one (in 64-bit arithmetic, which is the
  integer successor below the maximum).
\<close>

theorem C7_lease_task_list:
  assumes "lt_TaskList request \<noteq> []"
  shows "(\<forall>err prev. Scan d (templateGetTaskList (taskListKey request)) = ScanError err \<and>
            isErrNotFound err \<longrightarrow>
          fst (LeaseTaskList d now request) =
            [Queried (templateGetTaskList (taskListKey request)),
             Queried (templateInsertTaskListQuery (taskListKey request) initialRangeID
               (templateTaskListType (lt_DomainID request) (lt_TaskList request)
                  (lt_TaskType request) 0 (lt_TaskListKind request) now))] \<and>
          (MapScanCAS d (templateInsertTaskListQuery (taskListKey request) initialRangeID
               (templateTaskListType (lt_DomainID request) (lt_TaskList request)
                  (lt_TaskType request) 0 (lt_TaskListKind request) now)) = CasReply True prev \<longrightarrow>
             (\<exists>info. snd (LeaseTaskList d now request) = Done info \<and> tli_RangeID info = 1)) \<and>
          (\<forall>t. t (taskListKey request) = None \<longrightarrow>
             lwt (templateInsertTaskListQuery (taskListKey request) initialRangeID
               (templateTaskListType (lt_DomainID request) (lt_TaskList request)
                  (lt_TaskType request) 0 (lt_TaskListKind request) now)) t =
             (CasReply True [],
              t(taskListKey request \<mapsto>
                  [(''range_id'', CBigint 1),
                   (''task_list'', templateTaskListType (lt_DomainID request)
                      (lt_TaskList request) (lt_TaskType request) 0 (lt_TaskListKind request)
                      now)])))) \<and>
         (\<forall>rangeID tlDB. Scan d (templateGetTaskList (taskListKey request)) = ScanRow rangeID tlDB \<and>
            0 < sint (lt_RangeID request) \<and> lt_RangeID request \<noteq> rangeID \<longrightarrow>
          fst (LeaseTaskList d now request) =
            [Queried (templateGetTaskList (taskListKey request))] \<and>
          (\<exists>m. snd (LeaseTaskList d now request) = Failed (ConditionFailedError m))) \<and>
         (\<forall>rangeID tlDB ackLevel taskListKind prev.
            Scan d (templateGetTaskList (taskListKey request)) = ScanRow rangeID tlDB \<and>
            \<not> (0 < sint (lt_RangeID request) \<and> lt_RangeID request \<noteq> rangeID) \<and>
            as_int64 tlDB ''ack_level'' = Some ackLevel \<and>
            as_int tlDB ''kind'' = Some taskListKind \<longrightarrow>
          fst (LeaseTaskList d now request) =
            [Queried (templateGetTaskList (taskListKey request)),
             Queried (templateUpdateTaskListQuery (rangeID + 1)
               (templateTaskListType (lt_DomainID request) (lt_TaskList request)
                  (lt_TaskType request) ackLevel taskListKind now)
               (taskListKey request) rangeID)] \<and>
          (MapScanCAS d (templateUpdateTaskListQuery (rangeID + 1)
               (templateTaskListType (lt_DomainID request) (lt_TaskList request)
                  (lt_TaskType request) ackLevel taskListKind now)
               (taskListKey request) rangeID) = CasReply True prev \<longrightarrow>
             (\<exists>info. snd (LeaseTaskList d now request) = Done info \<and>
                     tli_RangeID info = rangeID + 1)) \<and>
          (sint rangeID < 2 ^ 63 - 1 \<longrightarrow> sint (rangeID + 1) = sint rangeID + 1) \<and>
          (\<forall>t r taskList. t (taskListKey request) = Some r \<longrightarrow>
             (map_of r ''range_id'' = Some (CBigint rangeID) \<longrightarrow>
                fst (lwt (templateUpdateTaskListQuery (rangeID + 1) taskList
                       (taskListKey request) rangeID) t) = CasReply True [] \<and>
                (\<exists>r'. snd (lwt (templateUpdateTaskListQuery (rangeID + 1) taskList
                              (taskListKey request) rangeID) t) = t(taskListKey request \<mapsto> r') \<and>
                      map_of r' ''range_id'' = Some (CBigint (rangeID + 1)))) \<and>
             (map_of r ''range_id'' \<noteq> Some (CBigint rangeID) \<longrightarrow>
                snd (lwt (templateUpdateTaskListQuery (rangeID + 1) taskList
                       (taskListKey request) rangeID) t) = t \<and>
                (\<exists>prev. fst (lwt (templateUpdateTaskListQuery (rangeID + 1) taskList
                               (taskListKey request) rangeID) t) = CasReply False prev))))"
proof (intro conjI allI impI; (elim conjE)?)
  fix err prev
  assume s: "Scan d (templateGetTaskList (taskListKey request)) = ScanError err"
    and n: "isErrNotFound err"
  show "fst (LeaseTaskList d now request) =
      [Queried (templateGetTaskList (taskListKey request)),
       Queried (templateInsertTaskListQuery (taskListKey request) initialRangeID
         (templateTaskListType (lt_DomainID request) (lt_TaskList request)
            (lt_TaskType request) 0 (lt_TaskListKind request) now))]"
    by (rule lease_fresh(1) [OF assms s n])
  show "\<exists>info. snd (LeaseTaskList d now request) = Done info \<and> tli_RangeID info = 1"
    if "MapScanCAS d (templateInsertTaskListQuery (taskListKey request) initialRangeID
         (templateTaskListType (lt_DomainID request) (lt_TaskList request)
            (lt_TaskType request) 0 (lt_TaskListKind request) now)) = CasReply True prev"
    by (rule lease_fresh(2) [OF assms s n that])
  show "lwt (templateInsertTaskListQuery (taskListKey request) initialRangeID
         (templateTaskListType (lt_DomainID request) (lt_TaskList request)
            (lt_TaskType request) 0 (lt_TaskListKind request) now)) t =
       (CasReply True [],
        t(taskListKey request \<mapsto>
            [(''range_id'', CBigint 1),
             (''task_list'', templateTaskListType (lt_DomainID request)
                (lt_TaskList request) (lt_TaskType request) 0 (lt_TaskListKind request) now)]))"
    if "t (taskListKey request) = None" for t
    using that by (simp add: insert_task_list_lwt)
next
  fix rangeID tlDB
  assume s: "Scan d (templateGetTaskList (taskListKey request)) = ScanRow rangeID tlDB"
    and p: "0 < sint (lt_RangeID request)" and m: "lt_RangeID request \<noteq> rangeID"
  show "fst (LeaseTaskList d now request) =
      [Queried (templateGetTaskList (taskListKey request))]"
    by (rule lease_renew_mismatch(1) [OF assms s p m])
  show "\<exists>m. snd (LeaseTaskList d now request) = Failed (ConditionFailedError m)"
    by (rule lease_renew_mismatch(2) [OF assms s p m])
next
  fix rangeID tlDB ackLevel taskListKind prev
  assume s: "Scan d (templateGetTaskList (taskListKey request)) = ScanRow rangeID tlDB"
    and c: "\<not> (0 < sint (lt_RangeID request) \<and> lt_RangeID request \<noteq> rangeID)"
    and a: "as_int64 tlDB ''ack_level'' = Some ackLevel"
    and k: "as_int tlDB ''kind'' = Some taskListKind"
  show "fst (LeaseTaskList d now request) =
      [Queried (templateGetTaskList (taskListKey request)),
       Queried (templateUpdateTaskListQuery (rangeID + 1)
         (templateTaskListType (lt_DomainID request) (lt_TaskList request)
            (lt_TaskType request) ackLevel taskListKind now)
         (taskListKey request) rangeID)]"
    by (rule lease_increment(1) [OF assms s c a k])
  show "\<exists>info. snd (LeaseTaskList d now request) = Done info \<and> tli_RangeID info = rangeID + 1"
    if "MapScanCAS d (templateUpdateTaskListQuery (rangeID + 1)
         (templateTaskListType (lt_DomainID request) (lt_TaskList request)
            (lt_TaskType request) ackLevel taskListKind now)
         (taskListKey request) rangeID) = CasReply True prev"
    by (rule lease_increment(2) [OF assms s c a k that])
  show "sint (rangeID + 1) = sint rangeID + 1" if "sint rangeID < 2 ^ 63 - 1"
    by (rule int64_succ [OF that])
  show "fst (lwt (templateUpdateTaskListQuery (rangeID + 1) taskList
               (taskListKey request) rangeID) t) = CasReply True []"
    if "t (taskListKey request) = Some r" "map_of r ''range_id'' = Some (CBigint rangeID)"
    for t r taskList
    using update_task_list_lwt [of t "taskListKey request" r rangeID taskList] that by blast
  show "\<exists>r'. snd (lwt (templateUpdateTaskListQuery (rangeID + 1) taskList
                       (taskListKey request) rangeID) t) = t(taskListKey request \<mapsto> r') \<and>
               map_of r' ''range_id'' = Some (CBigint (rangeID + 1))"
    if "t (taskListKey request) = Some r" "map_of r ''range_id'' = Some (CBigint rangeID)"
    for t r taskList
    using update_task_list_lwt [of t "taskListKey request" r rangeID taskList] that by blast
  show "snd (lwt (templateUpdateTaskListQuery (rangeID + 1) taskList
               (taskListKey request) rangeID) t) = t"
    if "t (taskListKey request) = Some r" "map_of r ''range_id'' \<noteq> Some (CBigint rangeID)"
    for t r taskList
    using update_task_list_lwt [of t "taskListKey request" r rangeID taskList] that by blast
  show "\<exists>prev. fst (lwt (templateUpdateTaskListQuery (rangeID + 1) taskList
                        (taskListKey request) rangeID) t) = CasReply False prev"
    if "t (taskListKey request) = Some r" "map_of r ''range_id'' \<noteq> Some (CBigint rangeID)"
    for t r taskList
    using update_task_list_lwt [of t "taskListKey request" r rangeID taskList] that by blast
qed


theorem C7_lease_task_list_witness:
  "lt_TaskList (exampleLeaseRequest 3) \<noteq> [] \<and>
   fst (LeaseTaskList (taskListSession (exampleTaskListTable 5)) CNull (exampleLeaseRequest 3)) =
     [Queried (templateGetTaskList (taskListKey (exampleLeaseRequest 3)))] \<and>
   (\<exists>m. snd (LeaseTaskList (taskListSession (exampleTaskListTable 5)) CNull
             (exampleLeaseRequest 3)) = Failed (ConditionFailedError m)) \<and>
   (\<exists>info. snd (LeaseTaskList (taskListSession (exampleTaskListTable 5)) CNull
                (exampleLeaseRequest 0)) = Done info \<and> tli_RangeID info = 6) \<and>
   (\<exists>info. snd (LeaseTaskList (taskListSession Map.empty) CNull (exampleLeaseRequest 0)) =
             Done info \<and> tli_RangeID info = 1)"
proof -
  let ?d = "taskListSession (exampleTaskListTable 5)"
  let ?tl = "[(''domain_id'', CUUID ''domain-1''), (''name'', CText ''list-1''),
              (''type'', CInt 0), (''ack_level'', CBigint 4), (''kind'', CInt 0),
              (''last_updated'', CNull)]"
  have ne: "lt_TaskList (exampleLeaseRequest k) \<noteq> []" for k
    by (simp add: exampleLeaseRequest_def)
  have key: "taskListKey (exampleLeaseRequest k) = taskListKey (exampleLeaseRequest 0)" for k
    by (simp add: taskListKey_def exampleLeaseRequest_def)
  have scan: "Scan ?d (templateGetTaskList (taskListKey (exampleLeaseRequest k))) =
      ScanRow 5 ?tl" for k
    unfolding key [of k]
    by (simp add: taskListSession_def templateGetTaskList_def exampleTaskListTable_def
        taskListKey_def tasksKey_def exampleLeaseRequest_def as_int64_def as_map_def
        templateTaskListType_def)
  have cols: "as_int64 ?tl ''ack_level'' = Some 4" "as_int ?tl ''kind'' = Some 0"
    by (simp_all add: as_int64_def as_int_def)
  have three: "0 < sint (lt_RangeID (exampleLeaseRequest 3)) \<and>
      lt_RangeID (exampleLeaseRequest 3) \<noteq> 5"
    by (simp add: exampleLeaseRequest_def)
  have zero: "\<not> (0 < sint (lt_RangeID (exampleLeaseRequest 0)) \<and>
      lt_RangeID (exampleLeaseRequest 0) \<noteq> 5)"
    by (simp add: exampleLeaseRequest_def)
  note mismatch = C7_lease_task_list [OF ne [of 3], of ?d CNull, THEN conjunct2, THEN conjunct1,
      rule_format, of 5 ?tl]
  from mismatch scan [of 3] three have
    m: "fst (LeaseTaskList ?d CNull (exampleLeaseRequest 3)) =
          [Queried (templateGetTaskList (taskListKey (exampleLeaseRequest 3)))] \<and>
        (\<exists>m. snd (LeaseTaskList ?d CNull (exampleLeaseRequest 3)) =
               Failed (ConditionFailedError m))"
    by blast
  have applied: "MapScanCAS ?d (templateUpdateTaskListQuery (5 + 1)
        (templateTaskListType (lt_DomainID (exampleLeaseRequest 0))
           (lt_TaskList (exampleLeaseRequest 0)) (lt_TaskType (exampleLeaseRequest 0)) 4 0 CNull)
        (taskListKey (exampleLeaseRequest 0)) 5) = CasReply True []"
    by (simp add: taskListSession_def templateUpdateTaskListQuery_def exampleTaskListTable_def
        holds_def)
  note renew = C7_lease_task_list [OF ne [of 0], of ?d CNull, THEN conjunct2, THEN conjunct2,
      rule_format, of 5 ?tl 4 0 "[]"]
  from renew scan [of 0] zero cols applied have
    "\<exists>info. snd (LeaseTaskList ?d CNull (exampleLeaseRequest 0)) = Done info \<and>
            tli_RangeID info = 5 + 1"
    by blast
  then have r: "\<exists>info. snd (LeaseTaskList ?d CNull (exampleLeaseRequest 0)) = Done info \<and>
      tli_RangeID info = 6"
    by simp
  let ?e = "\<lparr>isErrNotFound = True, isTimeoutError = False, isThrottlingError = False\<rparr>"
  have none: "Scan (taskListSession Map.empty)
      (templateGetTaskList (taskListKey (exampleLeaseRequest 0))) = ScanError ?e \<and>
      isErrNotFound ?e"
    by (simp add: taskListSession_def templateGetTaskList_def)
  have inserted: "MapScanCAS (taskListSession Map.empty)
      (templateInsertTaskListQuery (taskListKey (exampleLeaseRequest 0)) initialRangeID
         (templateTaskListType (lt_DomainID (exampleLeaseRequest 0))
            (lt_TaskList (exampleLeaseRequest 0)) (lt_TaskType (exampleLeaseRequest 0)) 0
            (lt_TaskListKind (exampleLeaseRequest 0)) CNull)) = CasReply True []"
    by (simp add: taskListSession_def templateInsertTaskListQuery_def)
  note fresh = C7_lease_task_list [OF ne [of 0], of "taskListSession Map.empty" CNull,
      THEN conjunct1, rule_format, of ?e "[]"]
  from fresh none inserted have
    f: "\<exists>info. snd (LeaseTaskList (taskListSession Map.empty) CNull (exampleLeaseRequest 0)) =
          Done info \<and> tli_RangeID info = 1"
    by blast
  from ne [of 3] m r f show ?thesis by blast
qed

end
